theory Spec2Isabelle
  imports Main "HOL-Library.AList" "HOL-Library.Sublist"
begin

section \<open>Split-learning model partitions (sl\_base.py)\<close>

text \<open>
  A shallow embedding of \<^verbatim>\<open>secretflow/ml/nn/sl/backend/tensorflow/sl_base.py\<close>:
  the TensorFlow partition \<^verbatim>\<open>SLBaseTFModel\<close> and the torch-style
  \<^verbatim>\<open>ModelPartition\<close>. Methods take the object as an explicit state and return
  either the exception they raise (\<open>Inl\<close>) or their result together with the updated
  object (\<open>Inr\<close>). The state an object is left in when a method raises is not
  modelled.
\<close>

subsection \<open>Exceptions\<close>

text \<open>
  The Python exceptions the modelled code can raise. \<open>AssertionError\<close> and
  \<open>Exception\<close> carry the message of the \<^verbatim>\<open>assert\<close> or \<^verbatim>\<open>raise\<close> statement.
  \<open>InvalidArgumentError\<close> is TensorFlow's error for an out-of-range index into a tensor.
\<close>

datatype error =
    AssertionError string
  | Exception string
  | StopIteration
  | IndexError
  | KeyError
  | TypeError
  | AttributeError
  | ValueError
  | InvalidArgumentError
  | UnboundLocalError

subsection \<open>The custom gradient operator\<close>

text \<open>
  \<^verbatim>\<open>
  @staticmethod
  @tf.custom_gradient
  def fuse_op(x, y):
      def grad(upstream):
          return upstream * y, upstream * y
      return x, grad
  \<close>
  The decorated function returns the forward value and the backward function. The
  product \<^verbatim>\<open>*\<close> is TensorFlow's; the model takes it as the parameter \<open>mul\<close>, so
  that the definition holds for whatever the operands' product is.
\<close>

definition fuse_op :: "('u \<Rightarrow> 'y \<Rightarrow> 'g) \<Rightarrow> 'x \<Rightarrow> 'y \<Rightarrow> 'x \<times> ('u \<Rightarrow> 'g \<times> 'g)" where
  "fuse_op mul x y = (x, \<lambda>upstream. (mul upstream y, mul upstream y))"

subsection \<open>The torch-style partition\<close>

text \<open>
  \<^verbatim>\<open>
  class ModelPartition(object):
      def __init__(self, model_fn, optim_fn, loss_fn, dataloader_fn):
          ...
          self._dataloader = {k: dl_fn() for k, dl_fn in dataloader_fn.items()}
          self._dataiter = {k: iter(_dl) for k, _dl in self._dataloader.items()}
  \<close>
  A data loader is modelled by the finite list of \<open>(x, y)\<close> batches one pass over it
  yields, and an iterator over it by the batches it has yet to yield. The field
  \<^verbatim>\<open>_dataiter\<close> starts as a dictionary of iterators; since \<^verbatim>\<open>get_one_batch\<close>
  can assign a bare iterator to it, the model gives it both shapes.
\<close>

datatype 'b dataiter = IterDict "string \<rightharpoonup> 'b list" | BareIter "'b list"

record ('x, 'y, 'p) model_partition =
  model :: "'x \<Rightarrow> (string \<times> 'x) list \<Rightarrow> 'p"
  dataloader :: "string \<rightharpoonup> ('x \<times> 'y) list"
  dataiter :: "('x \<times> 'y) dataiter"

definition init_partition ::
  "('x \<Rightarrow> (string \<times> 'x) list \<Rightarrow> 'p) \<Rightarrow> (string \<rightharpoonup> ('x \<times> 'y) list) \<Rightarrow> ('x, 'y, 'p) model_partition" where
  "init_partition model_fn dataloader_fn =
     \<lparr>model = model_fn, dataloader = dataloader_fn, dataiter = IterDict dataloader_fn\<rparr>"

text \<open>
  \<^verbatim>\<open>
  def get_one_batch(self, name='train'):
      try:
          x, y = next(self._dataiter[name])
      except StopIteration:
          self._dataiter = iter(self._dataloader[name])
          x, y = next(self._dataiter)
      return x, y
  \<close>
  Subscripting a bare iterator raises \<open>TypeError\<close>, a missing key \<open>KeyError\<close>; neither
  is caught. \<^verbatim>\<open>next\<close> advances the iterator object held in the dictionary. In the
  handler the whole field is replaced by the fresh iterator, which is then advanced.
\<close>

definition get_one_batch ::
  "('x, 'y, 'p) model_partition \<Rightarrow> string \<Rightarrow> error + (('x \<times> 'y) \<times> ('x, 'y, 'p) model_partition)" where
  "get_one_batch self name =
     (case dataiter self of
        BareIter _ \<Rightarrow> Inl TypeError
      | IterDict d \<Rightarrow>
          (case d name of
             None \<Rightarrow> Inl KeyError
           | Some (b # rest) \<Rightarrow> Inr (b, self\<lparr>dataiter := IterDict (d(name \<mapsto> rest))\<rparr>)
           | Some [] \<Rightarrow>
               (case dataloader self name of
                  None \<Rightarrow> Inl KeyError
                | Some [] \<Rightarrow> Inl StopIteration
                | Some (b # rest) \<Rightarrow> Inr (b, self\<lparr>dataiter := BareIter rest\<rparr>))))"

text \<open>
  \<^verbatim>\<open>
  def forward(self, used_name='train', external_input=None):
      if external_input is None:
          external_input = {}
      x, y = self.get_one_batch(used_name)
      y_pred = self.model(x, **external_input)
      return y_pred, y
  \<close>
\<close>

definition forward ::
  "('x, 'y, 'p) model_partition \<Rightarrow> string \<Rightarrow> (string \<times> 'x) list option
     \<Rightarrow> error + (('p \<times> 'y) \<times> ('x, 'y, 'p) model_partition)" where
  "forward self used_name external_input =
     (let ext = (case external_input of None \<Rightarrow> [] | Some e \<Rightarrow> e) in
      case get_one_batch self used_name of
        Inl e \<Rightarrow> Inl e
      | Inr ((x, y), self') \<Rightarrow> Inr ((model self' x ext, y), self'))"

text \<open>A sequence of \<^verbatim>\<open>get_one_batch\<close> calls, stopping at the first exception.\<close>

fun get_batches ::
  "('x, 'y, 'p) model_partition \<Rightarrow> string list \<Rightarrow> error + (('x \<times> 'y) list \<times> ('x, 'y, 'p) model_partition)" where
  "get_batches self [] = Inr ([], self)"
| "get_batches self (name # names) =
     (case get_one_batch self name of
        Inl e \<Rightarrow> Inl e
      | Inr (b, self') \<Rightarrow>
          (case get_batches self' names of
             Inl e \<Rightarrow> Inl e
           | Inr (bs, self'') \<Rightarrow> Inr (b # bs, self'')))"

subsection \<open>Tensors, sequences and iterators\<close>

text \<open>
  A tensor (a \<^verbatim>\<open>tf.Tensor\<close> or a NumPy array) is a scalar or a sequence of
  sub-tensors along its first axis. The element type \<open>'a\<close> stands for the floating-point
  numbers, on which the model computes nothing. A value the code handles as
  ``a tensor or a list (tuple) of tensors'' is a \<open>pyval\<close>: embeddings, gradients and
  batches are of this kind.
\<close>

datatype 'a tensor = Scalar 'a | Tensor "'a tensor list"

datatype 't pyval = One 't | Many "'t list"

text \<open>\<^verbatim>\<open>len(v)\<close>: a scalar tensor has no length.\<close>

fun py_len :: "'a tensor pyval \<Rightarrow> error + nat" where
  "py_len (One (Scalar _)) = Inl TypeError"
| "py_len (One (Tensor ts)) = Inr (length ts)"
| "py_len (Many ts) = Inr (length ts)"

text \<open>The items of a value along its first axis; \<^verbatim>\<open>v[i]\<close> for \<open>i < len(v)\<close> is item \<open>i\<close>.\<close>

fun py_items :: "'a tensor pyval \<Rightarrow> 'a tensor list" where
  "py_items (One (Scalar _)) = []"
| "py_items (One (Tensor ts)) = ts"
| "py_items (Many ts) = ts"

text \<open>
  \<^verbatim>\<open>v[0]\<close>, \<^verbatim>\<open>v[-k]\<close> and \<^verbatim>\<open>v[:-k]\<close> for \<open>k > 0\<close>. Out of range, a list or tuple
  raises \<open>IndexError\<close> and a tensor TensorFlow's \<open>InvalidArgumentError\<close>; a slice of a
  list, tuple or non-scalar tensor never raises.
\<close>

fun py_first :: "'a tensor pyval \<Rightarrow> error + 'a tensor" where
  "py_first (One (Scalar _)) = Inl InvalidArgumentError"
| "py_first (One (Tensor ts)) = (case ts of [] \<Rightarrow> Inl InvalidArgumentError | t # _ \<Rightarrow> Inr t)"
| "py_first (Many ts) = (case ts of [] \<Rightarrow> Inl IndexError | t # _ \<Rightarrow> Inr t)"

fun py_index_end :: "'a tensor pyval \<Rightarrow> nat \<Rightarrow> error + 'a tensor" where
  "py_index_end (One (Scalar _)) k = Inl InvalidArgumentError"
| "py_index_end (One (Tensor ts)) k =
     (if k \<le> length ts then Inr (ts ! (length ts - k)) else Inl InvalidArgumentError)"
| "py_index_end (Many ts) k =
     (if k \<le> length ts then Inr (ts ! (length ts - k)) else Inl IndexError)"

fun py_slice_end :: "'a tensor pyval \<Rightarrow> nat \<Rightarrow> error + 'a tensor pyval" where
  "py_slice_end (One (Scalar _)) k = Inl InvalidArgumentError"
| "py_slice_end (One (Tensor ts)) k = Inr (One (Tensor (take (length ts - k) ts)))"
| "py_slice_end (Many ts) k = Inr (Many (take (length ts - k) ts))"

text \<open>
  An iterator is the sequence of batches it has yet to yield, finite or not: \<open>it n\<close> is
  the batch \<open>n\<close> calls from now, \<open>None\<close> once the iterator is exhausted.
  \<^verbatim>\<open>next\<close> returns the first batch and advances, and raises \<open>StopIteration\<close> on an
  exhausted iterator; on a field that still holds \<^verbatim>\<open>None\<close> it raises \<open>TypeError\<close>.
\<close>

type_synonym 'b iterator = "nat \<Rightarrow> 'b option"

definition list_iter :: "'b list \<Rightarrow> 'b iterator" where
  "list_iter bs = (\<lambda>n. if n < length bs then Some (bs ! n) else None)"

definition py_next :: "'b iterator option \<Rightarrow> error + ('b \<times> 'b iterator)" where
  "py_next it =
     (case it of
        None \<Rightarrow> Inl TypeError
      | Some f \<Rightarrow> (case f 0 of None \<Rightarrow> Inl StopIteration | Some b \<Rightarrow> Inr (b, \<lambda>n. f (Suc n))))"

subsection \<open>Dictionaries of logs\<close>

text \<open>
  A log dictionary is an association list from metric names to values.
  \<open>dict_update d e\<close> is \<^verbatim>\<open>d.update(e)\<close>; \<open>prefix_keys p e\<close> is the comprehension
  \<^verbatim>\<open>{p + name: val for name, val in e.items()}\<close>.
\<close>

type_synonym 'a logs = "(string \<times> 'a) list"

definition dict_update :: "'a logs \<Rightarrow> 'a logs \<Rightarrow> 'a logs" where
  "dict_update d e = fold (\<lambda>(k, v) acc. AList.update k v acc) e d"

definition prefix_keys :: "string \<Rightarrow> 'a logs \<Rightarrow> 'a logs" where
  "prefix_keys p e = fold (\<lambda>(name, val) acc. AList.update (p @ name) val acc) e []"

subsection \<open>Collaborators of the partition\<close>

text \<open>
  A value that crosses the party boundary is plain or in the compressor's encoded form,
  which is opaque to the partition.
\<close>

datatype ('a, 'e) wire = Plain "'a tensor pyval" | Packed 'e

text \<open>
  The injected compressor. Python's \<^verbatim>\<open>compress\<close> and \<^verbatim>\<open>decompress\<close> take an array
  or a list; the model has one function for each use the partition makes of them:
  \<open>compress\<close> on the array of one embedding, \<open>compress_list\<close> on the list of gradients,
  \<open>decompress\<close> on an incoming gradient and \<open>decompress_list\<close> on the tuple of hidden
  features. \<open>sparse\<close> is \<^verbatim>\<open>isinstance(compressor, SparseCompressor)\<close>.
\<close>

record ('a, 'e) compressor =
  sparse :: bool
  compress :: "'a tensor \<Rightarrow> 'e"
  compress_list :: "'a tensor list \<Rightarrow> 'e list"
  decompress :: "('a, 'e) wire \<Rightarrow> 'a tensor pyval"
  decompress_list :: "('a, 'e) wire list \<Rightarrow> 'a tensor pyval list"

text \<open>
  The gradient tape records the operations run inside it: the call of the base network
  (its input and the embedding stored) and the calls of \<^verbatim>\<open>fuse_op\<close> (their operands
  and backward function). The flag is \<^verbatim>\<open>persistent\<close>.
\<close>

datatype 'a tape_op =
    BaseCall "'a tensor pyval" "'a tensor pyval"
  | CustomGradient "'a tensor pyval" "'a tensor" "'a tensor \<Rightarrow> 'a tensor \<times> 'a tensor"

datatype 'a tape = GradientTape bool "'a tape_op list"

text \<open>
  The operations of TensorFlow, Keras and NumPy the partition calls, on a base network
  \<open>'m\<close> and a fuse network \<open>'f\<close>. They are parameters of the model, total except for the
  dataset pipeline, which the code can hand \<^verbatim>\<open>None\<close>, and for the differentiation of
  the tape and the optimizer step, which can raise on the operands the code hands them
  (tensors of shapes that do not multiply, no gradient for any variable):
  \<^item> \<open>tf_dataset x batch_size repeat_count shuffle buffer_size seed\<close> is
    \<^verbatim>\<open>iter(tf.data.Dataset.from_tensor_slices(x).batch(..).repeat(..)[.shuffle(..)])\<close>;
  \<^item> \<open>base_call\<close> is \<^verbatim>\<open>self.model_base(data_x)\<close>, \<open>trainable_variables\<close>,
    \<open>tape_gradient\<close> and \<open>apply_gradients\<close> the three steps of the base update;
  \<^item> \<open>fuse_net_internal\<close> is \<^verbatim>\<open>_fuse_net_internal\<close> (one training step of the fuse
    network, which reads \<^verbatim>\<open>self.kwargs\<close> and returns the gradients of the loss with
    respect to the hiddens), and
    \<open>metrics\<close> the names and results of \<^verbatim>\<open>self.model_fuse.metrics\<close>;
  \<^item> \<open>tf_multiply\<close> is the product of tensors, \<open>nonzero_mask d\<close> is \<^verbatim>\<open>(d != 0) * 1\<close>
    and \<open>multiply d m\<close> is \<^verbatim>\<open>d.multiply(m)\<close>.
\<close>

record ('a, 'e, 'm, 'f) framework =
  tf_dataset :: "'a tensor option pyval \<Rightarrow> nat \<Rightarrow> int \<Rightarrow> bool \<Rightarrow> nat \<Rightarrow> nat
                   \<Rightarrow> error + 'a tensor pyval iterator"
  base_call :: "'m \<Rightarrow> 'a tensor pyval \<Rightarrow> 'a tensor pyval"
  trainable_variables :: "'m \<Rightarrow> 'a tensor list"
  tape_gradient :: "'a tape \<Rightarrow> 'a tensor pyval list \<Rightarrow> 'a tensor list
                      \<Rightarrow> error + 'a tensor option list"
  apply_gradients :: "('a tensor option \<times> 'a tensor) list \<Rightarrow> 'm \<Rightarrow> error + 'm"
  fuse_net_internal :: "'f \<Rightarrow> (string \<times> 'a tensor) list \<Rightarrow> 'a tensor list
                          \<Rightarrow> 'a tensor option \<Rightarrow> 'a tensor option \<Rightarrow> 'a tensor list \<times> 'f"
  metrics :: "'f \<Rightarrow> (string \<times> 'a) list"
  tf_multiply :: "'a tensor \<Rightarrow> 'a tensor \<Rightarrow> 'a tensor"
  nonzero_mask :: "('a, 'e) wire \<Rightarrow> 'e"
  multiply :: "'e \<Rightarrow> 'e \<Rightarrow> 'e"

datatype callback_list = CallbackList

subsection \<open>The TensorFlow partition\<close>

text \<open>
  The fields of \<^verbatim>\<open>SLBaseTFModel\<close> that the modelled methods read or write
  (\<^verbatim>\<open>dp_strategy\<close> is kept as its two hooks; \<^verbatim>\<open>valid_set\<close> is never used).
\<close>

record ('a, 'e, 'm, 'f) sl_model =
  model_base :: "'m option"
  model_fuse :: "'f option"
  embedding_dp :: "('a tensor \<Rightarrow> 'a tensor) option"
  label_dp :: "('a tensor \<Rightarrow> 'a tensor) option"
  compressor :: "('a, 'e) compressor option"
  train_set :: "'a tensor pyval iterator option"
  eval_set :: "'a tensor pyval iterator option"
  tape :: "'a tape option"
  h :: "'a tensor pyval option"
  train_x :: "'a tensor option"
  train_y :: "'a tensor option"
  eval_x :: "'a tensor option"
  eval_y :: "'a tensor option"
  kwargs :: "(string \<times> 'a tensor) list"
  has_y :: bool
  has_s_w :: bool
  train_sample_weight :: "'a tensor option"
  eval_sample_weight :: "'a tensor option"
  fuse_callbacks :: "callback_list option"
  logs :: "'a logs option"
  epoch_logs :: "'a logs option"
  training_logs :: "'a logs option"
  steps_per_epoch :: "nat option"

text \<open>
  \<^verbatim>\<open>__init__\<close>: the networks come from the builders when these are not \<^verbatim>\<open>None\<close>, the
  privacy hooks from the strategy when it is not \<^verbatim>\<open>None\<close>; every other field starts
  empty.
\<close>

definition init_sl_model ::
  "'m option \<Rightarrow> 'f option
     \<Rightarrow> (('a tensor \<Rightarrow> 'a tensor) option \<times> ('a tensor \<Rightarrow> 'a tensor) option) option
     \<Rightarrow> ('a, 'e) compressor option \<Rightarrow> ('a, 'e, 'm, 'f) sl_model" where
  "init_sl_model builder_base builder_fuse dp_strategy compressor' =
     \<lparr>model_base = builder_base, model_fuse = builder_fuse,
      embedding_dp = (case dp_strategy of None \<Rightarrow> None | Some dp \<Rightarrow> fst dp),
      label_dp = (case dp_strategy of None \<Rightarrow> None | Some dp \<Rightarrow> snd dp),
      compressor = compressor',
      train_set = None, eval_set = None, tape = None, h = None,
      train_x = None, train_y = None, eval_x = None, eval_y = None,
      kwargs = [], has_y = False, has_s_w = False,
      train_sample_weight = None, eval_sample_weight = None,
      fuse_callbacks = None, logs = None, epoch_logs = None, training_logs = None,
      steps_per_epoch = None\<rparr>"

text \<open>
  \<^verbatim>\<open>
  def init_data(self):
      self.train_x, self.train_y = None, None
      self.eval_x, self.eval_y = None, None
      self.train_sample_weight = None
      self.eval_sample_weight = None
  \<close>
\<close>

definition init_data :: "('a, 'e, 'm, 'f) sl_model \<Rightarrow> ('a, 'e, 'm, 'f) sl_model" where
  "init_data self =
     self\<lparr>train_x := None, train_y := None, eval_x := None, eval_y := None,
          train_sample_weight := None, eval_sample_weight := None\<rparr>"

text \<open>
  The inputs of \<^verbatim>\<open>build_dataset\<close> are NumPy arrays or pandas data frames. A data
  frame is a table of rows; its \<^verbatim>\<open>values\<close> is the two-dimensional array of its cells
  and its \<^verbatim>\<open>shape\<close> always has two entries.
\<close>

datatype 'a feature = NdArray "'a tensor" | DataFrame "'a list list"

fun shape :: "'a tensor \<Rightarrow> nat list" where
  "shape (Scalar _) = []"
| "shape (Tensor ts) = length ts # (case ts of [] \<Rightarrow> [] | t # _ \<Rightarrow> shape t)"

fun feature_shape :: "'a feature \<Rightarrow> nat list" where
  "feature_shape (NdArray t) = shape t"
| "feature_shape (DataFrame rows) =
     [length rows, (case rows of [] \<Rightarrow> 0 | r # _ \<Rightarrow> length r)]"

fun feature_values :: "'a feature \<Rightarrow> 'a tensor" where
  "feature_values (NdArray t) = t"
| "feature_values (DataFrame rows) = Tensor (map (\<lambda>r. Tensor (map Scalar r)) rows)"

text \<open>
  \<^verbatim>\<open>
  def build_dataset(self, *x, y=None, s_w=None, batch_size=32, buffer_size=128,
                    shuffle=False, repeat_count=1, stage="train", random_seed=1234,
                    dataset_builder=None):
      assert len(x) > 0 or x[0] is not None, "X can not be None, please check"
      x = [xi for xi in x]
      self.has_y = False
      self.has_s_w = False
      if y is not None and len(y.shape) > 0:
          self.has_y = True
          x.append(y)
          if s_w is not None and len(s_w.shape) > 0:
              self.has_s_w = True
              x.append(s_w)
      steps_per_epoch = None
      if dataset_builder is None:
          x = [t.values if isinstance(t, pd.DataFrame) else t for t in x]
          x = x[0] if len(x) == 1 else tuple(x)
          data_set = (tf.data.Dataset.from_tensor_slices(x)
                      .batch(batch_size).repeat(repeat_count))
          if shuffle:
              data_set = data_set.shuffle(buffer_size, seed=random_seed)
      else:
          data_set = dataset_builder(x)
          steps_per_epoch = data_set.steps_per_epoch
          self.steps_per_epoch = steps_per_epoch
      data_set = iter(data_set)
      if stage == "train":
          self.train_set = data_set
      elif stage == "eval":
          self.eval_set = data_set
      else:
          raise Exception(f"Illegal argument stage={stage}")
      return steps_per_epoch
  \<close>
  The condition of the \<^verbatim>\<open>assert\<close> is evaluated left to right: \<^verbatim>\<open>x[0]\<close> is read only
  when \<^verbatim>\<open>len(x) > 0\<close> is false. \<open>assert_x\<close> is that statement, \<open>append_label\<close> the
  block that appends the label and the sample weight and gives the two flags. A custom
  \<^verbatim>\<open>dataset_builder\<close> returns the iterator of its data set and the data set's
  \<^verbatim>\<open>steps_per_epoch\<close>.
\<close>

definition assert_x :: "'a feature option list \<Rightarrow> error + unit" where
  "assert_x x =
     (if 0 < length x then Inr ()
      else (case x of
              [] \<Rightarrow> Inl IndexError
            | x0 # _ \<Rightarrow>
                if x0 \<noteq> None then Inr ()
                else Inl (AssertionError ''X can not be None, please check'')))"

definition append_label ::
  "'a feature option list \<Rightarrow> 'a feature option \<Rightarrow> 'a feature option
     \<Rightarrow> bool \<times> bool \<times> 'a feature option list" where
  "append_label x y s_w =
     (case y of
        None \<Rightarrow> (False, False, x)
      | Some yv \<Rightarrow>
          if 0 < length (feature_shape yv) then
            (case s_w of
               None \<Rightarrow> (True, False, x @ [y])
             | Some wv \<Rightarrow>
                 if 0 < length (feature_shape wv) then (True, True, x @ [y] @ [s_w])
                 else (True, False, x @ [y]))
          else (False, False, x))"

definition build_dataset ::
  "('a, 'e, 'm, 'f) framework \<Rightarrow> ('a, 'e, 'm, 'f) sl_model
     \<Rightarrow> 'a feature option list \<Rightarrow> 'a feature option \<Rightarrow> 'a feature option
     \<Rightarrow> nat \<Rightarrow> nat \<Rightarrow> bool \<Rightarrow> int \<Rightarrow> string \<Rightarrow> nat
     \<Rightarrow> ('a feature option list \<Rightarrow> 'a tensor pyval iterator \<times> nat option) option
     \<Rightarrow> error + (nat option \<times> ('a, 'e, 'm, 'f) sl_model)" where
  "build_dataset fw self x y s_w batch_size buffer_size shuffle repeat_count stage random_seed
       dataset_builder =
     (case assert_x x of
        Inl e \<Rightarrow> Inl e
      | Inr _ \<Rightarrow>
          (case append_label x y s_w of
             (hy, hw, x1) \<Rightarrow>
               let self1 = self\<lparr>has_y := hy, has_s_w := hw\<rparr> in
               (case (case dataset_builder of
                        None \<Rightarrow>
                          (let x2 = map (map_option feature_values) x1;
                               x3 = (if length x2 = 1 then One (x2 ! 0) else Many x2)
                           in case tf_dataset fw x3 batch_size repeat_count shuffle buffer_size
                                     random_seed of
                                Inl e \<Rightarrow> Inl e
                              | Inr data_set \<Rightarrow> Inr (data_set, None, self1))
                      | Some builder \<Rightarrow>
                          (case builder x1 of
                             (data_set, spe) \<Rightarrow>
                               Inr (data_set, spe, self1\<lparr>steps_per_epoch := spe\<rparr>))) of
                  Inl e \<Rightarrow> Inl e
                | Inr (data_set, spe, self2) \<Rightarrow>
                    if stage = ''train'' then Inr (spe, self2\<lparr>train_set := Some data_set\<rparr>)
                    else if stage = ''eval'' then Inr (spe, self2\<lparr>eval_set := Some data_set\<rparr>)
                    else Inl (Exception (''Illegal argument stage='' @ stage)))))"

text \<open>
  \<^verbatim>\<open>
  @tf.function
  def _base_forward_internal(self, data_x, h):
      h = self.model_base(data_x)
      if self.embedding_dp is not None:
          if isinstance(h, List):
              h = [self.embedding_dp(hi) for hi in h]
          else:
              h = self.embedding_dp(h)
      return h
  \<close>
  The argument \<^verbatim>\<open>h\<close> is overwritten before it is read, so the model leaves it out.
\<close>

definition base_forward_internal ::
  "('a, 'e, 'm, 'f) framework \<Rightarrow> 'm \<Rightarrow> ('a tensor \<Rightarrow> 'a tensor) option
     \<Rightarrow> 'a tensor pyval \<Rightarrow> 'a tensor pyval" where
  "base_forward_internal fw m dp data_x =
     (let hv = base_call fw m data_x in
      case dp of
        None \<Rightarrow> hv
      | Some f \<Rightarrow> (case hv of Many hs \<Rightarrow> Many (map f hs) | One t \<Rightarrow> One (f t)))"

text \<open>
  The two stage branches of \<^verbatim>\<open>base_forward\<close> are the same code on the fields of
  their stage:
  \<^verbatim>\<open>
  train_data = next(self.train_set)
  if self.has_y:
      if self.has_s_w:
          data_x = train_data[:-2]
          train_y = train_data[-2]
          self.train_sample_weight = train_data[-1]
      else:
          data_x = train_data[:-1]
          train_y = train_data[-1]
      # Label differential privacy
      if self.label_dp is not None:
          dp_train_y = self.label_dp(train_y.numpy())
          self.train_y = tf.convert_to_tensor(dp_train_y)
      else:
          self.train_y = train_y
  else:
      data_x = train_data
  \<close>
  \<open>split_batch\<close> is the part after \<^verbatim>\<open>next\<close>: it returns \<^verbatim>\<open>data_x\<close>, the label to
  store and the sample weight to store (\<open>None\<close> where the branch stores nothing).
\<close>

definition split_batch ::
  "bool \<Rightarrow> bool \<Rightarrow> ('a tensor \<Rightarrow> 'a tensor) option \<Rightarrow> 'a tensor pyval
     \<Rightarrow> error + ('a tensor pyval \<times> 'a tensor option \<times> 'a tensor option)" where
  "split_batch hy hw ldp data =
     (if hy then
        (case (if hw then
                 (case py_slice_end data 2 of
                    Inl e \<Rightarrow> Inl e
                  | Inr data_x \<Rightarrow>
                      (case py_index_end data 2 of
                         Inl e \<Rightarrow> Inl e
                       | Inr yv \<Rightarrow>
                           (case py_index_end data 1 of
                              Inl e \<Rightarrow> Inl e
                            | Inr wv \<Rightarrow> Inr (data_x, yv, Some wv))))
               else
                 (case py_slice_end data 1 of
                    Inl e \<Rightarrow> Inl e
                  | Inr data_x \<Rightarrow>
                      (case py_index_end data 1 of
                         Inl e \<Rightarrow> Inl e
                       | Inr yv \<Rightarrow> Inr (data_x, yv, None)))) of
           Inl e \<Rightarrow> Inl e
         | Inr (data_x, yv, w) \<Rightarrow>
             Inr (data_x, Some (case ldp of None \<Rightarrow> yv | Some f \<Rightarrow> f yv), w))
      else Inr (data, None, None))"

text \<open>
  \<^verbatim>\<open>
  def base_forward(self, stage="train", compress: bool = False):
      assert (self.model_base is not None), "Base model cannot be none, ..."
      data_x = None
      self.init_data()
      if stage == "train":
          ...
      elif stage == "eval":
          ...
      else:
          raise Exception("invalid stage")
      # Strip tuple of length one, e.g: (x,) -> x
      data_x = data_x[0] if isinstance(data_x, Tuple) and len(data_x) == 1 else data_x
      self.tape = tf.GradientTape(persistent=True)
      with self.tape:
          self.h = self._base_forward_internal(data_x, self.h)
      if compress:
          if self.compressor:
              return self.compressor.compress(self.h.numpy())
          else:
              raise Exception('can not find compressor when compress data in base_forward')
      return self.h
  \<close>
  \<^verbatim>\<open>init_data\<close> has just set the label and sample weight of both stages to
  \<^verbatim>\<open>None\<close>, so storing the \<open>None\<close> that \<open>split_batch\<close> returns for a field the branch
  does not assign leaves that field as the code does. A list has no \<^verbatim>\<open>numpy\<close>
  attribute.
\<close>

definition base_forward ::
  "('a, 'e, 'm, 'f) framework \<Rightarrow> ('a, 'e, 'm, 'f) sl_model \<Rightarrow> string \<Rightarrow> bool
     \<Rightarrow> error + (('a, 'e) wire \<times> ('a, 'e, 'm, 'f) sl_model)" where
  "base_forward fw self stage compress' =
     (case model_base self of
        None \<Rightarrow>
          Inl (AssertionError
            ''Base model cannot be none, please give model define or load a trained model'')
      | Some m \<Rightarrow>
          let self1 = init_data self in
          (case (if stage = ''train'' then
                   (case py_next (train_set self1) of
                      Inl e \<Rightarrow> Inl e
                    | Inr (train_data, it) \<Rightarrow>
                        (case split_batch (has_y self1) (has_s_w self1) (label_dp self1)
                                train_data of
                           Inl e \<Rightarrow> Inl e
                         | Inr (data_x, yv, w) \<Rightarrow>
                             Inr (data_x, self1\<lparr>train_set := Some it, train_y := yv,
                                                 train_sample_weight := w\<rparr>)))
                 else if stage = ''eval'' then
                   (case py_next (eval_set self1) of
                      Inl e \<Rightarrow> Inl e
                    | Inr (eval_data, it) \<Rightarrow>
                        (case split_batch (has_y self1) (has_s_w self1) (label_dp self1)
                                eval_data of
                           Inl e \<Rightarrow> Inl e
                         | Inr (data_x, yv, w) \<Rightarrow>
                             Inr (data_x, self1\<lparr>eval_set := Some it, eval_y := yv,
                                                 eval_sample_weight := w\<rparr>)))
                 else Inl (Exception ''invalid stage'')) of
             Inl e \<Rightarrow> Inl e
           | Inr (data_x, self2) \<Rightarrow>
               let data_x1 = (case data_x of Many [t] \<Rightarrow> One t | _ \<Rightarrow> data_x);
                   hv = base_forward_internal fw m (embedding_dp self2) data_x1;
                   self3 = self2\<lparr>tape := Some (GradientTape True [BaseCall data_x1 hv]),
                                 h := Some hv\<rparr>
               in if compress' then
                    (case compressor self3 of
                       Some c \<Rightarrow>
                         (case hv of
                            One t \<Rightarrow> Inr (Packed (compress c t), self3)
                          | Many _ \<Rightarrow> Inl AttributeError)
                     | None \<Rightarrow>
                         Inl (Exception
                           ''can not find compressor when compress data in base_forward''))
                  else Inr (Plain hv, self3)))"

text \<open>
  \<^verbatim>\<open>
  def base_backward(self, gradient, compress: bool = False):
      return_hiddens = []
      if compress:
          if self.compressor:
              gradient = self.compressor.decompress(gradient)
          else:
              raise Exception('can not find compressor when decompress data in base_backward')
      with self.tape:
          if len(gradient) == len(self.h):
              for i in range(len(gradient)):
                  return_hiddens.append(self.fuse_op(self.h[i], gradient[i]))
          else:
              gradient = gradient[0]
              return_hiddens.append(self.fuse_op(self.h, gradient))
      trainable_vars = self.model_base.trainable_variables
      gradients = self.tape.gradient(return_hiddens, trainable_vars)
      self._base_backword_internal(gradients, trainable_vars)
      # clear intermediate results
      self.tape = None
      self.h = None
      self.kwargs = {}
  \<close>
  \<open>pair_hiddens\<close> is the control flow of the \<^verbatim>\<open>with\<close> block: it returns the operand
  pairs \<open>(x, y)\<close> of the calls \<^verbatim>\<open>fuse_op(x, y)\<close> in the order they are made.
  \<^verbatim>\<open>len(gradient)\<close> is evaluated before \<^verbatim>\<open>len(self.h)\<close>, and \<^verbatim>\<open>len\<close> of
  \<^verbatim>\<open>None\<close> raises \<open>TypeError\<close>. In the loop every index is below both lengths.
\<close>

definition pair_hiddens ::
  "'a tensor pyval option \<Rightarrow> 'a tensor pyval \<Rightarrow> error + ('a tensor pyval \<times> 'a tensor) list" where
  "pair_hiddens hv gradient =
     (case py_len gradient of
        Inl e \<Rightarrow> Inl e
      | Inr n \<Rightarrow>
          (case hv of
             None \<Rightarrow> Inl TypeError
           | Some hs \<Rightarrow>
               (case py_len hs of
                  Inl e \<Rightarrow> Inl e
                | Inr k \<Rightarrow>
                    if n = k then
                      Inr (map (\<lambda>i. (One (py_items hs ! i), py_items gradient ! i)) [0..<n])
                    else
                      (case py_first gradient of
                         Inl e \<Rightarrow> Inl e
                       | Inr g \<Rightarrow> Inr [(hs, g)]))))"

text \<open>
  The backward function \<^verbatim>\<open>grad(upstream)\<close> of \<^verbatim>\<open>fuse_op\<close> takes one upstream
  gradient. \<^verbatim>\<open>tf.custom_gradient\<close> calls the backward function of a recorded call with
  one upstream gradient for each tensor of the call's forward value, so differentiating
  a call whose forward value is a list of two or more tensors raises \<open>TypeError\<close>.
  \<open>many_outputs\<close> tells such a call by its operands.
\<close>

definition many_outputs :: "'a tensor pyval \<times> 'a tensor \<Rightarrow> bool" where
  "many_outputs call = (case fst call of Many ts \<Rightarrow> 2 \<le> length ts | One _ \<Rightarrow> False)"

text \<open>
  Each call \<^verbatim>\<open>fuse_op(x, y)\<close> appends its forward value to \<^verbatim>\<open>return_hiddens\<close> and
  is recorded on the tape with its backward function. \<^verbatim>\<open>self.tape.gradient\<close>
  differentiates the recorded calls when there is a trainable variable to differentiate
  to: it raises \<open>TypeError\<close> at a call of many outputs, and otherwise whatever the
  differentiation itself raises, as does the optimizer step after it. An incoming gradient in encoded
  form that is not decompressed has no \<^verbatim>\<open>len\<close> (\<open>TypeError\<close>). Entering \<^verbatim>\<open>with None\<close> and reading an attribute of \<^verbatim>\<open>None\<close> raise
  \<open>AttributeError\<close>.
\<close>

definition base_backward ::
  "('a, 'e, 'm, 'f) framework \<Rightarrow> ('a, 'e, 'm, 'f) sl_model \<Rightarrow> ('a, 'e) wire \<Rightarrow> bool
     \<Rightarrow> error + ('a, 'e, 'm, 'f) sl_model" where
  "base_backward fw self gradient compress' =
     (case (if compress' then
              (case compressor self of
                 Some c \<Rightarrow> Inr (Plain (decompress c gradient))
               | None \<Rightarrow>
                   Inl (Exception
                     ''can not find compressor when decompress data in base_backward''))
            else Inr gradient) of
        Inl e \<Rightarrow> Inl e
      | Inr gradient1 \<Rightarrow>
          (case tape self of
             None \<Rightarrow> Inl AttributeError
           | Some (GradientTape persistent ops) \<Rightarrow>
               (case (case gradient1 of
                        Packed _ \<Rightarrow> Inl TypeError
                      | Plain g \<Rightarrow> pair_hiddens (h self) g) of
                  Inl e \<Rightarrow> Inl e
                | Inr calls \<Rightarrow>
                    let return_hiddens = map (\<lambda>(x, y). fst (fuse_op (tf_multiply fw) x y)) calls;
                        tape1 = GradientTape persistent
                                  (ops @ map (\<lambda>(x, y). CustomGradient x y
                                                 (snd (fuse_op (tf_multiply fw) x y))) calls)
                    in (case model_base self of
                          None \<Rightarrow> Inl AttributeError
                        | Some m \<Rightarrow>
                            let trainable_vars = trainable_variables fw m in
                            if trainable_vars \<noteq> [] \<and> list_ex many_outputs calls
                            then Inl TypeError
                            else
                              (case tape_gradient fw tape1 return_hiddens trainable_vars of
                                 Inl e \<Rightarrow> Inl e
                               | Inr gradients \<Rightarrow>
                                   (case apply_gradients fw (zip gradients trainable_vars) m of
                                      Inl e \<Rightarrow> Inl e
                                    | Inr m1 \<Rightarrow>
                                        Inr (self\<lparr>model_base := Some m1, tape := None,
                                                  h := None, kwargs := []\<rparr>)))))))"

text \<open>
  The callbacks of the training lifecycle. The Keras callback list is an external
  collaborator: the model keeps only whether \<^verbatim>\<open>fuse_callbacks\<close> is set (a method of
  \<^verbatim>\<open>None\<close> raises \<open>AttributeError\<close>) and takes its hooks not to touch the partition's
  dictionaries. \<^verbatim>\<open>training_logs\<close> is bound to the same dictionary object as
  \<^verbatim>\<open>epoch_logs\<close>; the model records its value at the assignment.
  \<^verbatim>\<open>
  def on_train_batch_end(self, step=None):
      assert step is not None, "Step cannot be none"
      self.epoch_logs = copy.deepcopy(self.logs)
      self.fuse_callbacks.on_train_batch_end(step, self.logs)

  def on_validation(self, val_logs):
      val_logs = {'val_' + name: val for name, val in val_logs.items()}
      self.epoch_logs.update(val_logs)

  def on_epoch_end(self, epoch):
      self.fuse_callbacks.on_epoch_end(epoch, self.epoch_logs)
      self.training_logs = self.epoch_logs
      return self.epoch_logs
  \<close>
\<close>

definition on_train_batch_end ::
  "('a, 'e, 'm, 'f) sl_model \<Rightarrow> nat option \<Rightarrow> error + ('a, 'e, 'm, 'f) sl_model" where
  "on_train_batch_end self step =
     (case step of
        None \<Rightarrow> Inl (AssertionError ''Step cannot be none'')
      | Some _ \<Rightarrow>
          let self1 = self\<lparr>epoch_logs := logs self\<rparr> in
          (case fuse_callbacks self1 of
             None \<Rightarrow> Inl AttributeError
           | Some _ \<Rightarrow> Inr self1))"

definition on_validation ::
  "('a, 'e, 'm, 'f) sl_model \<Rightarrow> 'a logs \<Rightarrow> error + ('a, 'e, 'm, 'f) sl_model" where
  "on_validation self val_logs =
     (let val_logs1 = prefix_keys ''val_'' val_logs in
      case epoch_logs self of
        None \<Rightarrow> Inl AttributeError
      | Some d \<Rightarrow> Inr (self\<lparr>epoch_logs := Some (dict_update d val_logs1)\<rparr>))"

definition on_epoch_end ::
  "('a, 'e, 'm, 'f) sl_model \<Rightarrow> nat \<Rightarrow> error + ('a logs option \<times> ('a, 'e, 'm, 'f) sl_model)" where
  "on_epoch_end self epoch =
     (case fuse_callbacks self of
        None \<Rightarrow> Inl AttributeError
      | Some _ \<Rightarrow> Inr (epoch_logs self, self\<lparr>training_logs := epoch_logs self\<rparr>))"

text \<open>
  The call sequence of one epoch's end: \<^verbatim>\<open>on_train_batch_end(step)\<close>, then
  \<^verbatim>\<open>on_validation\<close> for each dictionary of \<open>vals\<close> in order, then
  \<^verbatim>\<open>on_epoch_end(epoch)\<close>, stopping at the first exception.
\<close>

fun validations ::
  "('a, 'e, 'm, 'f) sl_model \<Rightarrow> 'a logs list \<Rightarrow> error + ('a, 'e, 'm, 'f) sl_model" where
  "validations self [] = Inr self"
| "validations self (v # vs) =
     (case on_validation self v of Inl e \<Rightarrow> Inl e | Inr self1 \<Rightarrow> validations self1 vs)"

definition epoch_lifecycle ::
  "('a, 'e, 'm, 'f) sl_model \<Rightarrow> nat option \<Rightarrow> 'a logs list \<Rightarrow> nat
     \<Rightarrow> error + ('a logs option \<times> ('a, 'e, 'm, 'f) sl_model)" where
  "epoch_lifecycle self step vals epoch =
     (case on_train_batch_end self step of
        Inl e \<Rightarrow> Inl e
      | Inr self1 \<Rightarrow>
          (case validations self1 vals of
             Inl e \<Rightarrow> Inl e
           | Inr self2 \<Rightarrow> on_epoch_end self2 epoch))"

text \<open>
  The epoch log after \<^verbatim>\<open>on_validation\<close> has run on each dictionary of \<open>vals\<close>,
  starting from the epoch log \<open>d\<close>.
\<close>

definition merged :: "'a logs \<Rightarrow> 'a logs list \<Rightarrow> 'a logs" where
  "merged d vals = fold (\<lambda>v acc. dict_update acc (prefix_keys ''val_'' v)) vals d"

text \<open>
  \<^verbatim>\<open>
  def fuse_net(self, *hidden_features, _num_returns=2, compress=False):
      assert (self.model_fuse is not None), "Fuse model cannot be none, please give model define"
      if compress:
          if self.compressor:
              # save fuse_sparse_masks to apply on gradients
              if isinstance(self.compressor, SparseCompressor):
                  fuse_sparse_masks = list(map(lambda d: (d != 0) * 1, hidden_features))
              hidden_features = self.compressor.decompress(hidden_features)
          else:
              raise Exception('can not find compressor when decompress data in fuse_net')
      hiddens = []
      for h in hidden_features:
          # h will be list, if basenet is multi output
          if isinstance(h, List):
              for i in range(len(h)):
                  hiddens.append(tf.convert_to_tensor(h[i]))
          else:
              hiddens.append(tf.convert_to_tensor(h))
      logs = {}
      gradient = self._fuse_net_internal(hiddens, self.train_y, self.train_sample_weight)
      for m in self.model_fuse.metrics:
          logs['train_' + m.name] = m.result().numpy()
      self.logs = logs
      if compress:
          gradient = [g.numpy() for g in gradient]
          gradient = self.compressor.compress(gradient)
          # apply fuse_sparse_masks on gradients
          if fuse_sparse_masks:
              assert len(fuse_sparse_masks) == len(gradient), \
                  f'length of fuse_sparse_masks and gradient mismatch: {len(fuse_sparse_masks)} - {len(gradient)}'
              gradient = list(map(lambda d, m: d.multiply(m), gradient, fuse_sparse_masks))
      return gradient
  \<close>
  The local variable \<^verbatim>\<open>fuse_sparse_masks\<close> is an option: \<open>None\<close> while it is unbound.
  Reading an unbound local raises \<open>UnboundLocalError\<close>; a bound list is true when it is
  not empty. Converting an encoded value to a tensor raises \<open>ValueError\<close>.
\<close>

fun show_nat :: "nat \<Rightarrow> string" where
  "show_nat n =
     (if n < 10 then [char_of (48 + n)] else show_nat (n div 10) @ [char_of (48 + n mod 10)])"

fun plain_values :: "('a, 'e) wire list \<Rightarrow> error + 'a tensor pyval list" where
  "plain_values [] = Inr []"
| "plain_values (Plain v # ws) =
     (case plain_values ws of Inl e \<Rightarrow> Inl e | Inr vs \<Rightarrow> Inr (v # vs))"
| "plain_values (Packed _ # ws) = Inl ValueError"

definition flatten_hiddens :: "'a tensor pyval list \<Rightarrow> 'a tensor list" where
  "flatten_hiddens hidden_features =
     concat (map (\<lambda>hv. case hv of Many ts \<Rightarrow> ts | One t \<Rightarrow> [t]) hidden_features)"

definition remask ::
  "('e \<Rightarrow> 'e \<Rightarrow> 'e) \<Rightarrow> 'e list option \<Rightarrow> 'e list \<Rightarrow> error + 'e list" where
  "remask mult fuse_sparse_masks gradient =
     (case fuse_sparse_masks of
        None \<Rightarrow> Inl UnboundLocalError
      | Some masks \<Rightarrow>
          if masks \<noteq> [] then
            (if length masks = length gradient then Inr (map2 mult gradient masks)
             else Inl (AssertionError
                    (''length of fuse_sparse_masks and gradient mismatch: ''
                       @ show_nat (length masks) @ '' - '' @ show_nat (length gradient))))
          else Inr gradient)"

definition fuse_net ::
  "('a, 'e, 'm, 'f) framework \<Rightarrow> ('a, 'e, 'm, 'f) sl_model \<Rightarrow> ('a, 'e) wire list \<Rightarrow> bool
     \<Rightarrow> error + (('a, 'e) wire list \<times> ('a, 'e, 'm, 'f) sl_model)" where
  "fuse_net fw self hidden_features compress' =
     (case model_fuse self of
        None \<Rightarrow> Inl (AssertionError ''Fuse model cannot be none, please give model define'')
      | Some f \<Rightarrow>
          (case (if compress' then
                   (case compressor self of
                      Some c \<Rightarrow>
                        Inr (if sparse c then Some (map (nonzero_mask fw) hidden_features)
                             else None,
                             decompress_list c hidden_features)
                    | None \<Rightarrow>
                        Inl (Exception
                          ''can not find compressor when decompress data in fuse_net''))
                 else
                   (case plain_values hidden_features of
                      Inl e \<Rightarrow> Inl e
                    | Inr vs \<Rightarrow> Inr (None, vs))) of
             Inl e \<Rightarrow> Inl e
           | Inr (fuse_sparse_masks, hidden_features1) \<Rightarrow>
               let hiddens = flatten_hiddens hidden_features1;
                   (gradient, f1) =
                     fuse_net_internal fw f (kwargs self) hiddens (train_y self)
                       (train_sample_weight self);
                   logs1 = prefix_keys ''train_'' (metrics fw f1);
                   self1 = self\<lparr>model_fuse := Some f1, logs := Some logs1\<rparr>
               in if compress' then
                    (case compressor self1 of
                       None \<Rightarrow> Inl AttributeError
                     | Some c \<Rightarrow>
                         (case remask (multiply fw) fuse_sparse_masks (compress_list c gradient) of
                            Inl e \<Rightarrow> Inl e
                          | Inr gradient1 \<Rightarrow> Inr (map Packed gradient1, self1)))
                  else Inr (map (\<lambda>g. Plain (One g)) gradient, self1)))"

subsection \<open>An example configuration\<close>

text \<open>
  A small instance of the collaborators, on which the model is run at concrete inputs:
  integer tensors, a base network that returns its input, a base weight and a fuse state
  that count their updates, a data pipeline that yields its whole input as one batch,
  \<^verbatim>\<open>repeat_count\<close> times, and a compressor whose encoded form is the list of the
  tensors it was given.
\<close>

definition example_framework :: "(int, int tensor list, nat, nat) framework" where
  "example_framework =
     \<lparr>tf_dataset = (\<lambda>x batch_size repeat_count shuffle buffer_size seed.
         case x of
           One None \<Rightarrow> Inl ValueError
         | One (Some t) \<Rightarrow> Inr (list_iter (replicate (nat repeat_count) (One t)))
         | Many ts \<Rightarrow>
             (case those ts of
                None \<Rightarrow> Inl ValueError
              | Some us \<Rightarrow> Inr (list_iter (replicate (nat repeat_count) (Many us))))),
      base_call = (\<lambda>m x. x),
      trainable_variables = (\<lambda>m. [Scalar (int m)]),
      tape_gradient = (\<lambda>t hs vars. Inr (map (\<lambda>v. None) vars)),
      apply_gradients = (\<lambda>gs m. Inr (Suc m)),
      fuse_net_internal = (\<lambda>f kw hs y w. (hs, Suc f)),
      metrics = (\<lambda>f. [(''loss'', int f)]),
      tf_multiply = (\<lambda>u y. y),
      nonzero_mask = (\<lambda>w. []),
      multiply = (\<lambda>d m. d)\<rparr>"

definition example_compressor :: "bool \<Rightarrow> (int, int tensor list) compressor" where
  "example_compressor sp =
     \<lparr>sparse = sp,
      compress = (\<lambda>t. [t]),
      compress_list = (\<lambda>ts. map (\<lambda>t. [t]) ts),
      decompress = (\<lambda>w. case w of Plain v \<Rightarrow> v | Packed ts \<Rightarrow> Many ts),
      decompress_list = map (\<lambda>w. case w of Plain v \<Rightarrow> v | Packed ts \<Rightarrow> Many ts)\<rparr>"

definition example_model :: "(int, int tensor list, nat, nat) sl_model" where
  "example_model = init_sl_model (Some 0) (Some 0) None (Some (example_compressor False))"

text \<open>The example partition between a forward and a backward step of a two-output base network.\<close>

definition example_open_model :: "(int, int tensor list, nat, nat) sl_model" where
  "example_open_model =
     example_model\<lparr>tape := Some (GradientTape True
                            [BaseCall (One (Scalar 1)) (Many [Scalar 1, Scalar 2])]),
                   h := Some (Many [Scalar 1, Scalar 2]),
                   kwargs := [(''k'', Scalar 0)]\<rparr>"

text \<open>The example partition after a fuse step that logged one metric, with callbacks set.\<close>

definition example_logged_model :: "(int, int tensor list, nat, nat) sl_model" where
  "example_logged_model =
     example_model\<lparr>logs := Some (prefix_keys ''train_'' [(''loss'', 1)]),
                   fuse_callbacks := Some CallbackList\<rparr>"

text \<open>
  The example partition with data sets built for both stages: features, label and sample
  weight, two training batches and one evaluation batch. The second is the same partition
  with a tape left open by a forward step.
\<close>

definition example_train_model :: "(int, int tensor list, nat, nat) sl_model" where
  "example_train_model =
     example_model\<lparr>
       train_set := Some (list_iter
         [Many [Tensor [Scalar 1, Scalar 2], Tensor [Scalar 0, Scalar 1], Tensor [Scalar 5, Scalar 6]],
          Many [Tensor [Scalar 3, Scalar 4], Tensor [Scalar 1, Scalar 0], Tensor [Scalar 7, Scalar 8]]]),
       eval_set := Some (list_iter
         [Many [Tensor [Scalar 9, Scalar 9], Tensor [Scalar 1, Scalar 1], Tensor [Scalar 2, Scalar 3]]]),
       has_y := True, has_s_w := True\<rparr>"

definition example_open_train_model :: "(int, int tensor list, nat, nat) sl_model" where
  "example_open_train_model =
     example_train_model\<lparr>
       tape := Some (GradientTape True
                 [BaseCall (One (Tensor [Scalar 1, Scalar 2])) (One (Tensor [Scalar 1, Scalar 2]))]),
       h := Some (One (Tensor [Scalar 1, Scalar 2]))\<rparr>"

text \<open>
  The example partition after a forward step for \<^verbatim>\<open>eval\<close>: the evaluation label,
  sample weight and embedding are stored and the evaluation iterator is exhausted.
\<close>

definition example_evaluated_model :: "(int, int tensor list, nat, nat) sl_model" where
  "example_evaluated_model =
     example_train_model\<lparr>
       eval_set := Some (list_iter []),
       tape := Some (GradientTape True
                 [BaseCall (One (Tensor [Scalar 9, Scalar 9])) (One (Tensor [Scalar 9, Scalar 9]))]),
       h := Some (One (Tensor [Scalar 9, Scalar 9])),
       eval_y := Some (Tensor [Scalar 1, Scalar 1]),
       eval_sample_weight := Some (Tensor [Scalar 2, Scalar 3])\<rparr>"

section \<open>Properties\<close>

subsection \<open>The custom gradient operator\<close>

text \<open>
  C1. \<^verbatim>\<open>fuse_op\<close> is the identity in the forward direction, and its backward function
  maps an upstream gradient \<open>u\<close> to the pair \<open>(u * y, u * y)\<close>, for every embedding \<open>x\<close>,
  external gradient \<open>y\<close> and product \<open>*\<close>: the gradient with respect to the embedding
  operand and the gradient with respect to the external gradient operand are both the
  upstream gradient times the external gradient.
\<close>

theorem fuse_op_identity_forward_scaled_backward:
  "fst (fuse_op mul x y) = x \<and> snd (fuse_op mul x y) u = (mul u y, mul u y)"
  by (simp add: fuse_op_def)

subsection \<open>Batches of the torch-style partition\<close>

text \<open>
  Once the field holds a bare iterator every call raises. The restart on exhaustion is
  what puts a bare iterator there; on an empty loader the restart itself raises
  \<open>StopIteration\<close>.
\<close>

lemma get_one_batch_bare_iter:
  "dataiter self = BareIter it \<Longrightarrow> get_one_batch self name = Inl TypeError"
  by (simp add: get_one_batch_def)

lemma get_one_batch_restart:
  "dataiter self = IterDict d \<Longrightarrow> d name = Some [] \<Longrightarrow> dataloader self name = Some (b # rest) \<Longrightarrow>
   get_one_batch self name = Inr (b, self\<lparr>dataiter := BareIter rest\<rparr>)"
  by (simp add: get_one_batch_def)

lemma get_one_batch_empty_loader:
  "dataiter self = IterDict d \<Longrightarrow> d name = Some [] \<Longrightarrow> dataloader self name = Some [] \<Longrightarrow>
   get_one_batch self name = Inl StopIteration"
  by (simp add: get_one_batch_def)

text \<open>
  C7 (the code at a failing input). A partition with one loader \<open>train\<close> of a single
  batch: the first call returns the batch, the second meets the exhausted iterator and
  restarts it, and the third raises \<open>TypeError\<close>, because the restart has replaced the
  dictionary of iterators by one bare iterator. So does a call for another stage after
  the restart, and so does \<^verbatim>\<open>forward\<close>.
\<close>

theorem get_one_batch_after_restart_raises:
  "get_batches (init_partition (\<lambda>x ext. x) [''train'' \<mapsto> [(1::nat, 2::nat)]])
       [''train'', ''train''] =
     Inr ([(1, 2), (1, 2)],
          \<lparr>model = (\<lambda>x ext. x), dataloader = [''train'' \<mapsto> [(1, 2)]], dataiter = BareIter []\<rparr>)
   \<and> get_batches (init_partition (\<lambda>x ext. x) [''train'' \<mapsto> [(1::nat, 2::nat)]])
       [''train'', ''train'', ''train''] = Inl TypeError
   \<and> get_batches (init_partition (\<lambda>x ext. x)
         [''train'' \<mapsto> [(1::nat, 2::nat)], ''eval'' \<mapsto> [(3, 4), (5, 6)]])
       [''train'', ''train'', ''eval''] = Inl TypeError
   \<and> forward \<lparr>model = (\<lambda>x ext. x), dataloader = [''train'' \<mapsto> [(1::nat, 2::nat)]],
        dataiter = BareIter []\<rparr> ''train'' None = Inl TypeError"
  by (simp add: init_partition_def get_one_batch_def forward_def)

subsection \<open>The backward step of the base network\<close>

text \<open>
  With a plain gradient, an open tape and a base network, \<^verbatim>\<open>base_backward\<close> records one
  \<^verbatim>\<open>fuse_op\<close> node per operand pair of \<open>pair_hiddens\<close> and differentiates the pairs'
  forward values (their first components): it raises \<open>TypeError\<close> when there is a
  trainable variable and a pair of many outputs, and otherwise applies the gradients.
\<close>

lemma base_backward_calls:
  "tape self = Some (GradientTape p ops) \<Longrightarrow> model_base self = Some m \<Longrightarrow>
   pair_hiddens (h self) g = Inr calls \<Longrightarrow>
   base_backward fw self (Plain g) False =
     (if trainable_variables fw m \<noteq> [] \<and> list_ex many_outputs calls then Inl TypeError
      else
        (case tape_gradient fw
                (GradientTape p
                   (ops @ map (\<lambda>(x, y). CustomGradient x y
                                 (\<lambda>u. (tf_multiply fw u y, tf_multiply fw u y))) calls))
                (map fst calls) (trainable_variables fw m) of
           Inl e \<Rightarrow> Inl e
         | Inr gradients \<Rightarrow>
             (case apply_gradients fw (zip gradients (trainable_variables fw m)) m of
                Inl e \<Rightarrow> Inl e
              | Inr m1 \<Rightarrow>
                  Inr (self\<lparr>model_base := Some m1, tape := None, h := None, kwargs := []\<rparr>))))"
  by (simp add: base_backward_def fuse_op_def Let_def case_prod_unfold)

text \<open>
  The pairs for an embedding list: positional when the gradient list has the same
  length, the first gradient against the whole list otherwise. Positional pairs have one
  output each, so a positional backward step is the differentiation of a tape that holds
  one node per position; against a single-tensor embedding the one-element gradient is
  paired with the whole tensor and differentiated likewise.
\<close>

lemma pair_hiddens_lists:
  "(length gs = length hs \<longrightarrow>
      pair_hiddens (Some (Many hs)) (Many gs) = Inr (zip (map One hs) gs))
   \<and> (length hs \<noteq> 1 \<longrightarrow>
      pair_hiddens (Some (Many hs)) (Many [g]) = Inr [(Many hs, g)])"
  by (auto simp: pair_hiddens_def intro!: nth_equalityI)

lemma positional_calls_single_output: "\<not> list_ex many_outputs (zip (map One hs) gs)"
  by (auto simp: list_ex_iff many_outputs_def dest!: set_zip_leftD)

lemma base_backward_positional:
  assumes "tape self = Some (GradientTape p ops)" and "model_base self = Some m"
    and "h self = Some (Many hs)" and "length gs = length hs"
  shows "base_backward fw self (Plain (Many gs)) False =
     (case tape_gradient fw
             (GradientTape p
                (ops @ map (\<lambda>(x, y). CustomGradient x y
                              (\<lambda>u. (tf_multiply fw u y, tf_multiply fw u y)))
                         (zip (map One hs) gs)))
             (map One hs) (trainable_variables fw m) of
        Inl e \<Rightarrow> Inl e
      | Inr gradients \<Rightarrow>
          (case apply_gradients fw (zip gradients (trainable_variables fw m)) m of
             Inl e \<Rightarrow> Inl e
           | Inr m1 \<Rightarrow>
               Inr (self\<lparr>model_base := Some m1, tape := None, h := None, kwargs := []\<rparr>)))"
proof -
  have calls: "pair_hiddens (h self) (Many gs) = Inr (zip (map One hs) gs)"
    using assms(3,4) pair_hiddens_lists [of gs hs] by simp
  have fsts: "map fst (zip (map One hs) gs) = map One hs"
    using assms(4) by (simp add: map_fst_zip)
  show ?thesis
    using base_backward_calls [OF assms(1,2) calls, of fw]
    by (simp add: positional_calls_single_output fsts)
qed

lemma base_backward_broadcast_list_raises:
  assumes "tape self = Some (GradientTape p ops)" and "model_base self = Some m"
    and "h self = Some (Many hs)" and "2 \<le> length hs" and "trainable_variables fw m \<noteq> []"
  shows "base_backward fw self (Plain (Many [g])) False = Inl TypeError"
proof -
  have calls: "pair_hiddens (h self) (Many [g]) = Inr [(Many hs, g)]"
    using assms(3,4) pair_hiddens_lists [of "[g]" hs g] by simp
  show ?thesis
    using base_backward_calls [OF assms(1,2) calls, of fw] assms(4,5)
    by (simp add: many_outputs_def)
qed

lemma base_backward_broadcast_tensor:
  assumes "tape self = Some (GradientTape p ops)" and "model_base self = Some m"
    and "h self = Some (One (Tensor rows))" and "length rows \<noteq> 1"
  shows "base_backward fw self (Plain (Many [g])) False =
     (case tape_gradient fw
             (GradientTape p
                (ops @ [CustomGradient (One (Tensor rows)) g
                          (\<lambda>u. (tf_multiply fw u g, tf_multiply fw u g))]))
             [One (Tensor rows)] (trainable_variables fw m) of
        Inl e \<Rightarrow> Inl e
      | Inr gradients \<Rightarrow>
          (case apply_gradients fw (zip gradients (trainable_variables fw m)) m of
             Inl e \<Rightarrow> Inl e
           | Inr m1 \<Rightarrow>
               Inr (self\<lparr>model_base := Some m1, tape := None, h := None, kwargs := []\<rparr>)))"
proof -
  have calls: "pair_hiddens (h self) (Many [g]) = Inr [(One (Tensor rows), g)]"
    using assms(3,4) by (auto simp: pair_hiddens_def)
  show ?thesis
    using base_backward_calls [OF assms(1,2) calls, of fw]
    by (simp add: many_outputs_def)
qed

text \<open>
  C3 (the code at a failing input). The example partition holds an embedding list of two
  tensors and an open tape. \<^verbatim>\<open>base_backward\<close> with a gradient list of one tensor
  makes the single call \<^verbatim>\<open>fuse_op(self.h, gradient[0])\<close> on the whole list, and the
  differentiation of that call raises \<open>TypeError\<close>: the backward function takes one
  upstream gradient and is handed two. No gradient reaches the base network.
\<close>

theorem base_backward_broadcast_to_list_raises:
  "h example_open_model = Some (Many [Scalar 1, Scalar 2])
   \<and> base_backward example_framework example_open_model (Plain (Many [Scalar 10])) False
       = Inl TypeError"
  by (simp add: base_backward_def example_open_model_def example_model_def
        init_sl_model_def pair_hiddens_def example_framework_def many_outputs_def Let_def)

text \<open>
  C6. After every successful return of \<^verbatim>\<open>base_backward\<close> the tape field and the stored
  embedding field are \<^verbatim>\<open>None\<close> (and \<^verbatim>\<open>kwargs\<close> is empty): no open tape remains.
\<close>

theorem base_backward_releases_tape:
  "base_backward fw self gradient compress' = Inr self'
     \<Longrightarrow> tape self' = None \<and> h self' = None \<and> kwargs self' = []"
  by (auto simp: base_backward_def Let_def
           split: if_splits option.splits sum.splits tape.splits wire.splits)

theorem base_backward_releases_tape_witness:
  "tape example_open_model \<noteq> None \<and> h example_open_model \<noteq> None
   \<and> (case base_backward example_framework example_open_model
              (Plain (Many [Scalar 10, Scalar 20])) False of
         Inl e \<Rightarrow> False
       | Inr self' \<Rightarrow>
           tape self' = None \<and> h self' = None \<and> kwargs self' = []
           \<and> model_base self' = Some 1)"
proof -
  have run:
    "base_backward example_framework example_open_model
       (Plain (Many [Scalar 10, Scalar 20])) False
     = Inr (example_open_model\<lparr>model_base := Some 1, tape := None, h := None, kwargs := []\<rparr>)"
    by (simp add: base_backward_def example_open_model_def example_model_def
          init_sl_model_def pair_hiddens_def example_framework_def many_outputs_def Let_def)
  show ?thesis
    using base_backward_releases_tape [OF run] unfolding run
    by (simp add: example_open_model_def example_model_def init_sl_model_def)
qed

subsection \<open>Building the data set\<close>

text \<open>
  C8 (the code at a failing input). With no feature argument at all, the condition of
  the \<^verbatim>\<open>assert\<close> reads \<^verbatim>\<open>x[0]\<close> of the empty tuple and \<^verbatim>\<open>build_dataset\<close> raises
  \<open>IndexError\<close>, whatever its other arguments; with the single feature \<^verbatim>\<open>None\<close> the
  assertion passes. The assertion's own error, with the message that names the missing
  input, is raised in neither case.
\<close>

theorem build_dataset_without_features_raises_index_error:
  "build_dataset fw self [] y s_w batch_size buffer_size shuffle repeat_count stage
       random_seed dataset_builder = Inl IndexError
   \<and> assert_x [None] = Inr ()"
  by (simp add: build_dataset_def assert_x_def)

subsection \<open>The fuse step\<close>

text \<open>
  With a sparsity-aware compressor the masks are taken from the hidden features as
  received, before decompression, and the compressed gradients are re-masked: not at all
  when there is no mask, element by element when there are as many masks as gradients,
  and with an \<open>AssertionError\<close> otherwise.
\<close>

lemma fuse_net_sparse_compress:
  assumes "model_fuse self = Some f" and "compressor self = Some c" and "sparse c"
    and "fuse_net_internal fw f (kwargs self) (flatten_hiddens (decompress_list c hidden_features))
           (train_y self) (train_sample_weight self) = (gradient, f1)"
  shows "fuse_net fw self hidden_features True =
     (case remask (multiply fw) (Some (map (nonzero_mask fw) hidden_features))
             (compress_list c gradient) of
        Inl e \<Rightarrow> Inl e
      | Inr gradient1 \<Rightarrow>
          Inr (map Packed gradient1,
               self\<lparr>model_fuse := Some f1,
                    logs := Some (prefix_keys ''train_'' (metrics fw f1))\<rparr>))"
  using assms by (simp add: fuse_net_def Let_def)

lemma remask_sparse:
  "remask mult (Some masks) gradient =
     (if masks = [] then Inr gradient
      else if length masks = length gradient then Inr (map2 mult gradient masks)
      else Inl (AssertionError
             (''length of fuse_sparse_masks and gradient mismatch: ''
                @ show_nat (length masks) @ '' - '' @ show_nat (length gradient))))"
  by (simp add: remask_def)

text \<open>
  C5 (the code at a failing input). For every partition with a fuse network and a
  compressor that is not sparsity-aware, every call of \<^verbatim>\<open>fuse_net\<close> with
  \<^verbatim>\<open>compress\<close> set raises \<open>UnboundLocalError\<close>: the masks are assigned only for a
  sparsity-aware compressor, and the return path reads them for every compressor. The
  example partition on one encoded hidden feature is such a call.
\<close>

theorem fuse_net_compress_without_sparse_compressor_raises:
  "fuse_net fw (self\<lparr>model_fuse := Some f, compressor := Some (c\<lparr>sparse := False\<rparr>)\<rparr>)
       hidden_features True = Inl UnboundLocalError
   \<and> fuse_net example_framework example_model [Packed [Tensor [Scalar 1, Scalar 0]]] True
       = Inl UnboundLocalError"
  by (simp add: fuse_net_def remask_def Let_def example_model_def init_sl_model_def
        example_compressor_def split: prod.splits)

subsection \<open>The epoch log\<close>

text \<open>
  Folding \<^verbatim>\<open>update\<close> over the items of a dictionary: the resulting lookup and keys.
\<close>

lemma map_of_fold_update:
  "map_of (fold (\<lambda>(k, v) acc. AList.update (f k) v acc) e d) = map_of d ++ map_of (rev (map (\<lambda>(k, v). (f k, v)) e))"
proof (induction e arbitrary: d)
  case Nil then show ?case by simp
next
  case (Cons a e)
  obtain k v where a: "a = (k, v)" by (cases a)
  show ?case
    by (simp add: a Cons.IH update_conv' map_add_upd_left fun_eq_iff map_add_def split: option.splits)
qed

lemma keys_fold_update:
  "fst ` set (fold (\<lambda>(k, v) acc. AList.update (f k) v acc) e d) = fst ` set d \<union> f ` fst ` set e"
proof (induction e arbitrary: d)
  case Nil then show ?case by simp
next
  case (Cons a e)
  obtain k v where a: "a = (k, v)" by (cases a)
  show ?case by (auto simp: a Cons.IH dom_update)
qed

lemma keys_prefix_keys: "fst ` set (prefix_keys p e) = (\<lambda>k. p @ k) ` fst ` set e"
  unfolding prefix_keys_def using keys_fold_update [of "\<lambda>k. p @ k" e "[]"] by simp

lemma keys_dict_update: "fst ` set (dict_update d e) = fst ` set d \<union> fst ` set e"
  unfolding dict_update_def using keys_fold_update [of "\<lambda>k. k" e d] by simp

lemma map_of_dict_update: "map_of (dict_update d e) = map_of d ++ map_of (rev e)"
  unfolding dict_update_def using map_of_fold_update [of "\<lambda>k. k" e d] by simp

lemma dict_update_other:
  assumes "k \<notin> fst ` set e"
  shows "map_of (dict_update d e) k = map_of d k"
proof -
  have "map_of (rev e) k = None"
    using assms by (simp add: map_of_eq_None_iff)
  then show ?thesis by (simp add: map_of_dict_update map_add_def)
qed

lemma validations_merged:
  "epoch_logs self = Some d \<Longrightarrow>
   validations self vals = Inr (self\<lparr>epoch_logs := Some (merged d vals)\<rparr>)"
proof (induction vals arbitrary: self d)
  case Nil then show ?case by (simp add: merged_def)
next
  case (Cons v vals)
  have "on_validation self v = Inr (self\<lparr>epoch_logs := Some (dict_update d (prefix_keys ''val_'' v))\<rparr>)"
    using Cons.prems by (simp add: on_validation_def)
  moreover have "validations (self\<lparr>epoch_logs := Some (dict_update d (prefix_keys ''val_'' v))\<rparr>) vals
     = Inr (self\<lparr>epoch_logs := Some (merged (dict_update d (prefix_keys ''val_'' v)) vals)\<rparr>)"
    using Cons.IH [of "self\<lparr>epoch_logs := Some (dict_update d (prefix_keys ''val_'' v))\<rparr>"] by simp
  ultimately show ?case by (simp add: merged_def)
qed

lemma merged_keys:
  "fst ` set (merged d vals) = fst ` set d \<union> (\<Union>vl\<in>set vals. (\<lambda>k. ''val_'' @ k) ` fst ` set vl)"
  unfolding merged_def
  by (induction vals arbitrary: d) (auto simp: keys_dict_update keys_prefix_keys)

lemma merged_other:
  "\<not> prefix ''val_'' k \<Longrightarrow> map_of (merged d vals) k = map_of d k"
  unfolding merged_def
proof (induction vals arbitrary: d)
  case Nil then show ?case by simp
next
  case (Cons v vals)
  have "k \<notin> fst ` set (prefix_keys ''val_'' v)"
    using Cons.prems by (auto simp: keys_prefix_keys)
  then show ?case using Cons by (simp add: dict_update_other)
qed

lemma train_key_not_val:
  assumes "map_of (prefix_keys ''train_'' ms) k = Some v"
  shows "\<not> prefix ''val_'' k"
proof -
  have "k \<in> fst ` set (prefix_keys ''train_'' ms)"
    using assms by (metis domI dom_map_of_conv_image_fst)
  then obtain n where "k = ''train_'' @ n" by (auto simp: keys_prefix_keys)
  then show ?thesis by simp
qed

text \<open>
  \<^verbatim>\<open>fuse_net\<close> is the only method that assigns \<^verbatim>\<open>self.logs\<close>, and it assigns a
  dictionary of \<^verbatim>\<open>train_\<close>-prefixed metric names. Before the first fuse step the field
  is \<^verbatim>\<open>None\<close>: then the sequence returns \<^verbatim>\<open>None\<close> when there is no validation call and
  raises at the first one.
\<close>

lemma fuse_net_logs:
  "fuse_net fw self hf c = Inr (g, self') \<Longrightarrow>
     \<exists>ms. logs self' = Some (prefix_keys ''train_'' ms)"
  by (auto simp: fuse_net_def Let_def split: option.splits sum.splits prod.splits if_splits)

lemma epoch_lifecycle_without_logs:
  "logs self = None \<Longrightarrow> fuse_callbacks self = Some cb \<Longrightarrow>
   epoch_lifecycle self (Some step) vals epoch =
     (case vals of [] \<Rightarrow> Inr (None, self\<lparr>epoch_logs := None, training_logs := None\<rparr>)
      | _ \<Rightarrow> Inl AttributeError)"
  by (cases vals) (simp_all add: epoch_lifecycle_def on_train_batch_end_def on_validation_def on_epoch_end_def)

text \<open>
  C4. For the calls \<^verbatim>\<open>on_train_batch_end(step)\<close>, then \<^verbatim>\<open>on_validation\<close> on each
  dictionary of \<open>vals\<close> (zero or more), then \<^verbatim>\<open>on_epoch_end(epoch)\<close>, on a partition with
  callbacks whose step log is one \<^verbatim>\<open>fuse_net\<close> wrote: the sequence returns a log that
  contains every key-value pair of the step log snapshotted by
  \<^verbatim>\<open>on_train_batch_end\<close>, contains the key \<^verbatim>\<open>'val_' + k\<close> for every key \<open>k\<close> of every
  validation dictionary, and maps every key that does not start with \<^verbatim>\<open>val_\<close> as the
  snapshot does (no validation key overwrites such a key).
\<close>

theorem on_epoch_end_log_contains_train_and_val_keys:
  assumes "logs self = Some (prefix_keys ''train_'' ms)" and "fuse_callbacks self = Some cb"
  shows "\<exists>lg self'. epoch_lifecycle self (Some step) vals epoch = Inr (Some lg, self')
       \<and> (\<forall>k v. map_of (prefix_keys ''train_'' ms) k = Some v \<longrightarrow> map_of lg k = Some v)
       \<and> (\<forall>vl \<in> set vals. \<forall>k \<in> fst ` set vl. ''val_'' @ k \<in> fst ` set lg)
       \<and> (\<forall>k. \<not> prefix ''val_'' k \<longrightarrow> map_of lg k = map_of (prefix_keys ''train_'' ms) k)"
proof -
  let ?d = "prefix_keys ''train_'' ms"
  let ?lg = "merged ?d vals"
  have batch_end: "on_train_batch_end self (Some step) = Inr (self\<lparr>epoch_logs := Some ?d\<rparr>)"
    using assms by (simp add: on_train_batch_end_def)
  have vals: "validations (self\<lparr>epoch_logs := Some ?d\<rparr>) vals
        = Inr (self\<lparr>epoch_logs := Some ?lg\<rparr>)"
    using validations_merged [of "self\<lparr>epoch_logs := Some ?d\<rparr>" ?d vals] by simp
  have run: "epoch_lifecycle self (Some step) vals epoch
        = Inr (Some ?lg, self\<lparr>epoch_logs := Some ?lg, training_logs := Some ?lg\<rparr>)"
    using assms(2) by (simp add: epoch_lifecycle_def batch_end vals on_epoch_end_def)
  have other: "\<forall>k. \<not> prefix ''val_'' k \<longrightarrow> map_of ?lg k = map_of ?d k"
    by (simp add: merged_other)
  have kept: "\<forall>k v. map_of ?d k = Some v \<longrightarrow> map_of ?lg k = Some v"
    using train_key_not_val [of ms] other by metis
  have added: "\<forall>vl \<in> set vals. \<forall>k \<in> fst ` set vl. ''val_'' @ k \<in> fst ` set ?lg"
    by (auto simp: merged_keys)
  from run kept added other show ?thesis by blast
qed

theorem on_epoch_end_log_witness:
  "(case epoch_lifecycle example_logged_model (Some 0)
           [ [(''loss'', 3)], [(''acc'', 4), (''loss'', 5)] ] 0 of
      Inr (Some lg, self') \<Rightarrow>
        map_of lg ''train_loss'' = Some 1 \<and> map_of lg ''val_loss'' = Some 5
        \<and> map_of lg ''val_acc'' = Some 4 \<and> training_logs self' = Some lg
    | _ \<Rightarrow> False)"
  using on_epoch_end_log_contains_train_and_val_keys
          [of example_logged_model "[(''loss'', 1)]" CallbackList 0
              "[ [(''loss'', 3)], [(''acc'', 4), (''loss'', 5)] ]" 0]
  by (simp add: example_logged_model_def example_model_def init_sl_model_def
        epoch_lifecycle_def on_train_batch_end_def on_validation_def on_epoch_end_def
        prefix_keys_def dict_update_def)

subsection \<open>The forward step of the base network\<close>

lemmas example_simps =
  example_train_model_def example_open_train_model_def example_model_def init_sl_model_def
  example_framework_def list_iter_def py_next_def base_forward_def init_data_def
  split_batch_def base_forward_internal_def Let_def base_backward_def pair_hiddens_def
  fuse_op_def many_outputs_def

text \<open>
  \<^verbatim>\<open>base_forward\<close> never reads the tape or the stored embedding: it overwrites both.
\<close>

lemma base_forward_tape_irrelevant: "base_forward fw (self\<lparr>tape := t, h := e\<rparr>) stage c = base_forward fw self stage c"
proof (cases "model_base self")
  case None
  then show ?thesis by (simp add: base_forward_def)
next
  case (Some m)
  consider (train) "stage = ''train''" | (eval) "stage \<noteq> ''train''" "stage = ''eval''"
    | (other) "stage \<noteq> ''train''" "stage \<noteq> ''eval''" by blast
  then show ?thesis
  proof cases
    case train
    show ?thesis
    proof (cases "py_next (train_set self)")
      case (Inl x)
      then show ?thesis using Some train by (simp add: base_forward_def init_data_def)
    next
      case (Inr p)
      obtain b it where p: "p = (b, it)" by (cases p)
      show ?thesis
      proof (cases "split_batch (has_y self) (has_s_w self) (label_dp self) b")
        case (Inl x)
        then show ?thesis using Some train Inr p by (simp add: base_forward_def init_data_def)
      next
        case sp: (Inr q)
        obtain data_x yv w where q: "q = (data_x, yv, w)" by (cases q)
        show ?thesis using Some train Inr p sp q
          by (simp add: base_forward_def init_data_def Let_def cong: option.case_cong pyval.case_cong)
      qed
    qed
  next
    case eval
    show ?thesis
    proof (cases "py_next (eval_set self)")
      case (Inl x)
      then show ?thesis using Some eval by (simp add: base_forward_def init_data_def)
    next
      case (Inr p)
      obtain b it where p: "p = (b, it)" by (cases p)
      show ?thesis
      proof (cases "split_batch (has_y self) (has_s_w self) (label_dp self) b")
        case (Inl x)
        then show ?thesis using Some eval Inr p by (simp add: base_forward_def init_data_def)
      next
        case sp: (Inr q)
        obtain data_x yv w where q: "q = (data_x, yv, w)" by (cases q)
        show ?thesis using Some eval Inr p sp q
          by (simp add: base_forward_def init_data_def Let_def cong: option.case_cong pyval.case_cong)
      qed
    qed
  next
    case other
    then show ?thesis using Some by (simp add: base_forward_def init_data_def)
  qed
qed

text \<open>
  What \<^verbatim>\<open>base_backward\<close> leaves in place, when \<^verbatim>\<open>base_forward\<close> returns, and what it
  raises on an exhausted iterator.
\<close>

lemma base_backward_preserves:
  "base_backward fw self g c = Inr self' \<Longrightarrow>
     model_base self' \<noteq> None \<and> train_set self' = train_set self \<and> eval_set self' = eval_set self
     \<and> has_y self' = has_y self \<and> has_s_w self' = has_s_w self \<and> label_dp self' = label_dp self
     \<and> embedding_dp self' = embedding_dp self \<and> compressor self' = compressor self"
  by (auto simp: base_backward_def Let_def
           split: if_splits option.splits sum.splits tape.splits wire.splits)

lemma base_forward_succeeds:
  assumes "model_base self = Some m" and "stage = ''train'' \<or> stage = ''eval''"
    and "py_next (if stage = ''train'' then train_set self else eval_set self) = Inr (b, it)"
    and "split_batch (has_y self) (has_s_w self) (label_dp self) b = Inr (data_x, yv, w)"
    and "c \<longrightarrow> compressor self \<noteq> None \<and>
           (\<exists>t. base_forward_internal fw m (embedding_dp self)
                  (case data_x of Many [t] \<Rightarrow> One t | _ \<Rightarrow> data_x) = One t)"
  shows "\<exists>out self'. base_forward fw self stage c = Inr (out, self') \<and> tape self' \<noteq> None"
proof -
  from assms(2) show ?thesis
  proof
    assume "stage = ''train''"
    then show ?thesis using assms(1,3,4,5)
      by (cases c) (auto simp: base_forward_def init_data_def Let_def)
  next
    assume "stage = ''eval''"
    then show ?thesis using assms(1,3,4,5)
      by (cases c) (auto simp: base_forward_def init_data_def Let_def)
  qed
qed

lemma base_forward_exhausted:
  assumes "model_base self = Some m" and "stage = ''train'' \<or> stage = ''eval''"
    and "py_next (if stage = ''train'' then train_set self else eval_set self) = Inl StopIteration"
  shows "base_forward fw self stage c = Inl StopIteration"
  using assms by (auto simp: base_forward_def init_data_def Let_def)

text \<open>
  C2 (as amended). A \<^verbatim>\<open>base_forward\<close> made while a tape is open is not rejected: the
  call behaves exactly as it does on the same partition with any other tape and stored
  embedding, the closed state included, and replaces both. After \<^verbatim>\<open>base_backward\<close>
  returns, a \<^verbatim>\<open>base_forward\<close> for the stage \<^verbatim>\<open>train\<close> or \<^verbatim>\<open>eval\<close> returns and opens
  a tape whenever the stage's iterator yields a batch, that batch splits according to the
  label and sample-weight flags and, when \<^verbatim>\<open>compress\<close> is set, a compressor is
  configured and the base network's embedding of the batch is a single tensor; it raises
  \<open>StopIteration\<close> when the stage's iterator is exhausted.
\<close>

theorem base_forward_not_blocked_by_open_tape:
  "base_forward fw (self\<lparr>tape := t, h := e\<rparr>) stage c = base_forward fw self stage c
   \<and> (base_backward fw self g c' = Inr self' \<longrightarrow>
        stage = ''train'' \<or> stage = ''eval'' \<longrightarrow>
        (py_next (if stage = ''train'' then train_set self else eval_set self) = Inr (b, it) \<longrightarrow>
         split_batch (has_y self) (has_s_w self) (label_dp self) b = Inr (data_x, yv, w) \<longrightarrow>
         (c \<longrightarrow> compressor self \<noteq> None \<and>
            (\<forall>m'. model_base self' = Some m' \<longrightarrow>
               (\<exists>t'. base_forward_internal fw m' (embedding_dp self)
                       (case data_x of Many [t] \<Rightarrow> One t | _ \<Rightarrow> data_x) = One t'))) \<longrightarrow>
         (\<exists>out self''. base_forward fw self' stage c = Inr (out, self'') \<and> tape self'' \<noteq> None))
        \<and> (py_next (if stage = ''train'' then train_set self else eval_set self) = Inl StopIteration \<longrightarrow>
             base_forward fw self' stage c = Inl StopIteration))"
proof (intro conjI impI)
  show "base_forward fw (self\<lparr>tape := t, h := e\<rparr>) stage c = base_forward fw self stage c"
    by (rule base_forward_tape_irrelevant)
next
  assume bb: "base_backward fw self g c' = Inr self'"
    and st: "stage = ''train'' \<or> stage = ''eval''"
    and nx: "py_next (if stage = ''train'' then train_set self else eval_set self) = Inr (b, it)"
    and sp: "split_batch (has_y self) (has_s_w self) (label_dp self) b = Inr (data_x, yv, w)"
    and cp: "c \<longrightarrow> compressor self \<noteq> None \<and>
            (\<forall>m'. model_base self' = Some m' \<longrightarrow>
               (\<exists>t'. base_forward_internal fw m' (embedding_dp self)
                       (case data_x of Many [t] \<Rightarrow> One t | _ \<Rightarrow> data_x) = One t'))"
  from base_backward_preserves [OF bb] obtain m where m: "model_base self' = Some m"
    and eqs: "train_set self' = train_set self" "eval_set self' = eval_set self"
      "has_y self' = has_y self" "has_s_w self' = has_s_w self" "label_dp self' = label_dp self"
      "embedding_dp self' = embedding_dp self" "compressor self' = compressor self"
    by auto
  have nx': "py_next (if stage = ''train'' then train_set self' else eval_set self') = Inr (b, it)"
    using nx eqs by (simp cong: if_cong)
  have sp': "split_batch (has_y self') (has_s_w self') (label_dp self') b = Inr (data_x, yv, w)"
    using sp eqs by simp
  have cp': "c \<longrightarrow> compressor self' \<noteq> None \<and>
           (\<exists>t. base_forward_internal fw m (embedding_dp self')
                  (case data_x of Many [t] \<Rightarrow> One t | _ \<Rightarrow> data_x) = One t)"
    using cp m eqs by simp
  show "\<exists>out self''. base_forward fw self' stage c = Inr (out, self'') \<and> tape self'' \<noteq> None"
    by (rule base_forward_succeeds [OF m st nx' sp' cp'])
next
  assume bb: "base_backward fw self g c' = Inr self'"
    and st: "stage = ''train'' \<or> stage = ''eval''"
    and nx: "py_next (if stage = ''train'' then train_set self else eval_set self) = Inl StopIteration"
  from base_backward_preserves [OF bb] obtain m where m: "model_base self' = Some m"
    and eqs: "train_set self' = train_set self" "eval_set self' = eval_set self"
    by auto
  have nx': "py_next (if stage = ''train'' then train_set self' else eval_set self') = Inl StopIteration"
    using nx eqs by (simp cong: if_cong)
  show "base_forward fw self' stage c = Inl StopIteration"
    by (rule base_forward_exhausted [OF m st nx'])
qed

theorem base_forward_not_blocked_witness:
  "base_forward example_framework
       (example_open_train_model\<lparr>tape := None, h := None\<rparr>) ''train'' True
     = base_forward example_framework example_open_train_model ''train'' True
   \<and> (\<exists>out self''.
         base_forward example_framework
           (example_open_train_model\<lparr>model_base := Some 1, tape := None, h := None, kwargs := []\<rparr>)
           ''train'' True = Inr (out, self'')
         \<and> tape self'' \<noteq> None)
   \<and> base_forward example_framework
         (example_open_train_model\<lparr>train_set := Some (list_iter []), model_base := Some 1,
            tape := None, h := None, kwargs := []\<rparr>)
         ''train'' True = Inl StopIteration"
proof -
  let ?b = "Many [Tensor [Scalar 1, Scalar 2], Tensor [Scalar 0, Scalar 1], Tensor [Scalar 5, Scalar (6::int)]]"
  let ?x = "Many [Tensor [Scalar 1, Scalar (2::int)]]"
  let ?g = "Plain (Many [Tensor [Scalar 1, Scalar 1]]) :: (int, int tensor list) wire"
  let ?S = "example_open_train_model"
  let ?S' = "example_open_train_model\<lparr>model_base := Some 1, tape := None, h := None, kwargs := []\<rparr>"
  let ?E = "example_open_train_model\<lparr>train_set := Some (list_iter [])\<rparr>"
  let ?E' = "example_open_train_model\<lparr>train_set := Some (list_iter []), model_base := Some 1,
               tape := None, h := None, kwargs := []\<rparr>"
  have bb: "base_backward example_framework ?S ?g False = Inr ?S'"
    by (simp add: example_simps)
  have bbE: "base_backward example_framework ?E ?g False = Inr ?E'"
    by (simp add: example_simps)
  have st: "''train'' = ''train'' \<or> ''train'' = ''eval''" by simp
  obtain it where nx: "py_next (if ''train'' = ''train'' then train_set ?S else eval_set ?S) = Inr (?b, it)"
    by (simp add: example_simps)
  have nxE: "py_next (if ''train'' = ''train'' then train_set ?E else eval_set ?E) = Inl StopIteration"
    by (simp add: example_simps)
  have sp: "split_batch (has_y ?S) (has_s_w ?S) (label_dp ?S) ?b
            = Inr (?x, Some (Tensor [Scalar 0, Scalar 1]), Some (Tensor [Scalar 5, Scalar 6]))"
    by (simp add: example_simps)
  have cp: "True \<longrightarrow> compressor ?S \<noteq> None \<and>
      (\<forall>m'. model_base ?S' = Some m' \<longrightarrow>
         (\<exists>t'. base_forward_internal example_framework m' (embedding_dp ?S)
                 (case ?x of Many [t] \<Rightarrow> One t | _ \<Rightarrow> ?x) = One t'))"
    by (simp add: example_train_model_def example_open_train_model_def example_model_def
          init_sl_model_def example_framework_def base_forward_internal_def)
  note inst = base_forward_not_blocked_by_open_tape [where fw = example_framework and self = ?S and t = None
               and e = None and stage = "''train''" and c = True and g = ?g and c' = False
               and self' = ?S' and b = ?b and it = it and data_x = ?x
               and yv = "Some (Tensor [Scalar 0, Scalar 1])" and w = "Some (Tensor [Scalar 5, Scalar 6])"]
  note instE = base_forward_not_blocked_by_open_tape [where fw = example_framework and self = ?E and stage = "''train''" and c = True
               and g = ?g and c' = False and self' = ?E']
  have B: "base_forward example_framework (?S\<lparr>tape := None, h := None\<rparr>) ''train'' True
     = base_forward example_framework ?S ''train'' True"
    by (rule conjunct1 [OF inst])
  have A: "\<exists>out self''. base_forward example_framework ?S' ''train'' True = Inr (out, self'')
         \<and> tape self'' \<noteq> None"
    by (rule mp [OF mp [OF mp [OF conjunct1 [OF mp [OF mp [OF conjunct2 [OF inst] bb] st]] nx] sp] cp])
  have C: "base_forward example_framework ?E' ''train'' True = Inl StopIteration"
    by (rule mp [OF conjunct2 [OF mp [OF mp [OF conjunct2 [OF instE] bbE] st]] nxE])
  show ?thesis by (intro conjI) (rule B, rule A, rule C)
qed


text \<open>
  C2 (counterexample). On the example partition a second \<^verbatim>\<open>base_forward\<close> made while
  the tape of the first is open returns the embedding of the second batch, and after the
  following \<^verbatim>\<open>base_backward\<close> has returned, a new \<^verbatim>\<open>base_forward\<close> raises
  \<open>StopIteration\<close>, the iterator being exhausted.
\<close>

theorem base_forward_reentrant_counterexample:
  "(case base_forward example_framework example_train_model ''train'' False of
      Inl e \<Rightarrow> False
    | Inr (out1, s1) \<Rightarrow>
        tape s1 \<noteq> None \<and>
        (case base_forward example_framework s1 ''train'' False of
           Inl e \<Rightarrow> False
         | Inr (out2, s2) \<Rightarrow>
             out2 = Plain (One (Tensor [Scalar 3, Scalar 4])) \<and>
             (case base_backward example_framework s2 (Plain (Many [Tensor [Scalar 1, Scalar 1]])) False of
                Inl e \<Rightarrow> False
              | Inr s3 \<Rightarrow> tape s3 = None \<and>
                  map_sum id fst (base_forward example_framework s3 ''train'' False) = Inl StopIteration)))"
  by (simp add: example_simps)

text \<open>
  C9 (as amended). A \<^verbatim>\<open>base_forward\<close> for one stage clears the stored label and sample
  weight of both stages and then stores the called stage's: after a successful call
  for \<^verbatim>\<open>train\<close> the evaluation label and sample weight are \<^verbatim>\<open>None\<close> and the training
  label and sample weight are those split off the batch it pulled; symmetrically for
  \<^verbatim>\<open>eval\<close>. The fields \<^verbatim>\<open>train_x\<close> and \<^verbatim>\<open>eval_x\<close> are \<^verbatim>\<open>None\<close> (batch features are
  never stored). The embedding is not kept per stage: a call for either stage stores the
  base network's embedding of its batch in the one field \<^verbatim>\<open>h\<close>.
\<close>

theorem base_forward_clears_both_stages: "base_forward fw self stage c = Inr (out, self') \<Longrightarrow>
   train_x self' = None \<and> eval_x self' = None
   \<and> (stage = ''train'' \<longrightarrow> eval_y self' = None \<and> eval_sample_weight self' = None \<and>
        (\<exists>m b it data_x. model_base self = Some m \<and> py_next (train_set self) = Inr (b, it) \<and>
           split_batch (has_y self) (has_s_w self) (label_dp self) b
             = Inr (data_x, train_y self', train_sample_weight self') \<and>
           h self' = Some (base_forward_internal fw m (embedding_dp self)
                             (case data_x of Many [t] \<Rightarrow> One t | _ \<Rightarrow> data_x))))
   \<and> (stage = ''eval'' \<longrightarrow> train_y self' = None \<and> train_sample_weight self' = None \<and>
        (\<exists>m b it data_x. model_base self = Some m \<and> py_next (eval_set self) = Inr (b, it) \<and>
           split_batch (has_y self) (has_s_w self) (label_dp self) b
             = Inr (data_x, eval_y self', eval_sample_weight self') \<and>
           h self' = Some (base_forward_internal fw m (embedding_dp self)
                             (case data_x of Many [t] \<Rightarrow> One t | _ \<Rightarrow> data_x))))"
  by (auto simp: base_forward_def init_data_def Let_def split: option.splits sum.splits prod.splits if_splits pyval.splits)

theorem base_forward_clears_both_stages_witness:
  "eval_y example_evaluated_model = Some (Tensor [Scalar 1, Scalar 1])
   \<and> eval_sample_weight example_evaluated_model = Some (Tensor [Scalar 2, Scalar 3])
   \<and> h example_evaluated_model = Some (One (Tensor [Scalar 9, Scalar 9]))
   \<and> (case base_forward example_framework example_evaluated_model ''train'' False of
      Inl e \<Rightarrow> False
    | Inr (out, s) \<Rightarrow> eval_y s = None \<and> eval_sample_weight s = None
        \<and> train_y s = Some (Tensor [Scalar 0, Scalar 1])
        \<and> train_sample_weight s = Some (Tensor [Scalar 5, Scalar 6])
        \<and> h s = Some (One (Tensor [Scalar 1, Scalar 2])))"
proof -
  obtain out s where run: "base_forward example_framework example_evaluated_model ''train'' False = Inr (out, s)"
    and vals: "train_y s = Some (Tensor [Scalar 0, Scalar 1])"
      "train_sample_weight s = Some (Tensor [Scalar 5, Scalar 6])"
      "h s = Some (One (Tensor [Scalar 1, Scalar 2]))"
    by (simp add: example_simps example_evaluated_model_def)
  have pre: "eval_y example_evaluated_model = Some (Tensor [Scalar 1, Scalar 1])
   \<and> eval_sample_weight example_evaluated_model = Some (Tensor [Scalar 2, Scalar 3])
   \<and> h example_evaluated_model = Some (One (Tensor [Scalar 9, Scalar 9]))"
    by (simp add: example_evaluated_model_def)
  have st: "''train'' = ''train''" by simp
  from base_forward_clears_both_stages [OF run] st have "eval_y s = None \<and> eval_sample_weight s = None"
    by (elim conjE) simp
  with vals pre show ?thesis by (simp add: run)
qed

text \<open>
  C9 (counterexample). After a forward step for \<^verbatim>\<open>eval\<close> the evaluation label and
  sample weight are stored; the following forward step for \<^verbatim>\<open>train\<close> leaves both
  \<^verbatim>\<open>None\<close>.
\<close>

theorem base_forward_other_stage_counterexample:
  "(case base_forward example_framework example_train_model ''eval'' False of
      Inl e \<Rightarrow> False
    | Inr (out1, s1) \<Rightarrow>
        eval_y s1 = Some (Tensor [Scalar 1, Scalar 1]) \<and>
        eval_sample_weight s1 = Some (Tensor [Scalar 2, Scalar 3]) \<and>
        (case base_forward example_framework s1 ''train'' False of
           Inl e \<Rightarrow> False
         | Inr (out2, s2) \<Rightarrow> eval_y s2 = None \<and> eval_sample_weight s2 = None))"
  by (simp add: example_simps)

subsection \<open>Sample weights without a label\<close>

lemma base_forward_flags:
  "base_forward fw self stage c = Inr (out, self') \<Longrightarrow>
     has_y self' = has_y self \<and> has_s_w self' = has_s_w self"
  by (auto simp: base_forward_def init_data_def Let_def split: option.splits sum.splits prod.splits if_splits pyval.splits)

lemma split_batch_no_weight: "split_batch hy False ldp b = Inr (data_x, yv, w) \<Longrightarrow> w = None"
  by (auto simp: split_batch_def split: if_splits sum.splits option.splits)

lemma append_label_no_label:
  "y = None \<or> (\<exists>yv. y = Some yv \<and> feature_shape yv = []) \<Longrightarrow> append_label x y s_w = (False, False, x)"
  by (auto simp: append_label_def)

lemma base_forward_no_weight:
  assumes "\<not> has_s_w self" and "base_forward fw self stage c = Inr (out, self')"
  shows "train_sample_weight self' = None \<and> eval_sample_weight self' = None \<and> \<not> has_s_w self'"
proof -
  have w: "\<And>b data_x yv w. split_batch (has_y self) (has_s_w self) (label_dp self) b
              = Inr (data_x, yv, w) \<Longrightarrow> w = None"
    using assms(1) split_batch_no_weight by metis
  show ?thesis
    using assms w
    by (auto simp: base_forward_def init_data_def Let_def
             split: option.splits sum.splits prod.splits if_splits pyval.splits)
qed

text \<open>
  C10. When \<^verbatim>\<open>build_dataset\<close> is called with no label, or with a label of empty
  shape, the call is the same as the call with neither label nor sample weight, whatever
  \<^verbatim>\<open>s_w\<close> is: the sample weight is not handed to the data set. When the call returns,
  \<^verbatim>\<open>has_y\<close> and \<^verbatim>\<open>has_s_w\<close> are false, and every successful \<^verbatim>\<open>base_forward\<close> on the
  resulting partition stores no sample weight for either stage and keeps \<^verbatim>\<open>has_s_w\<close>
  false.
\<close>

theorem build_dataset_drops_weight_without_label:
  assumes "y = None \<or> (\<exists>yv. y = Some yv \<and> feature_shape yv = [])"
  shows "build_dataset fw self x y s_w batch_size buffer_size shuffle repeat_count stage random_seed dataset_builder
         = build_dataset fw self x None None batch_size buffer_size shuffle repeat_count stage random_seed dataset_builder
     \<and> (\<forall>spe self'.
          build_dataset fw self x y s_w batch_size buffer_size shuffle repeat_count stage random_seed dataset_builder
            = Inr (spe, self') \<longrightarrow>
          \<not> has_y self' \<and> \<not> has_s_w self'
          \<and> (\<forall>stage' c out self''. base_forward fw self' stage' c = Inr (out, self'') \<longrightarrow>
                 train_sample_weight self'' = None \<and> eval_sample_weight self'' = None
                 \<and> \<not> has_s_w self''))"
proof -
  have al: "append_label x y s_w = (False, False, x)"
    using assms by (rule append_label_no_label)
  have al0: "append_label x None None = (False, False, x)"
    by (simp add: append_label_def)
  have same: "build_dataset fw self x y s_w batch_size buffer_size shuffle repeat_count stage random_seed dataset_builder
         = build_dataset fw self x None None batch_size buffer_size shuffle repeat_count stage random_seed dataset_builder"
    unfolding build_dataset_def al al0 by (rule refl)
  have flags: "\<not> has_y self' \<and> \<not> has_s_w self'"
    if "build_dataset fw self x y s_w batch_size buffer_size shuffle repeat_count stage random_seed dataset_builder
            = Inr (spe, self')" for spe self'
    using that unfolding build_dataset_def al
    by (auto simp: Let_def split: sum.splits option.splits if_splits prod.splits)
  show ?thesis
    using same flags base_forward_no_weight by blast
qed

theorem build_dataset_drops_weight_witness:
  "(case build_dataset example_framework example_model
           [Some (NdArray (Tensor [Scalar 1, Scalar 2]))] None
           (Some (NdArray (Tensor [Scalar 5, Scalar 6]))) 32 128 False 1 ''train'' 1234 None of
      Inl e \<Rightarrow> False
    | Inr (spe, s1) \<Rightarrow>
        \<not> has_y s1 \<and> \<not> has_s_w s1 \<and>
        (case base_forward example_framework s1 ''train'' False of
           Inl e \<Rightarrow> False
         | Inr (out, s2) \<Rightarrow>
             out = Plain (One (Tensor [Scalar 1, Scalar 2])) \<and> train_sample_weight s2 = None))
   \<and> build_dataset example_framework example_model
           [Some (NdArray (Tensor [Scalar 1, Scalar 2]))] (Some (NdArray (Scalar 0)))
           (Some (NdArray (Tensor [Scalar 5, Scalar 6]))) 32 128 False 1 ''train'' 1234 None
     = build_dataset example_framework example_model
           [Some (NdArray (Tensor [Scalar 1, Scalar 2]))] None None 32 128 False 1 ''train'' 1234 None"
proof -
  let ?x = "[Some (NdArray (Tensor [Scalar 1, Scalar (2::int)]))]"
  let ?w = "Some (NdArray (Tensor [Scalar 5, Scalar (6::int)]))"
  let ?s1 = "example_model\<lparr>train_set := Some (list_iter [One (Tensor [Scalar 1, Scalar 2])])\<rparr>"
  have h0: "(Some (NdArray (Scalar (0::int))) = None \<or>
             (\<exists>yv. Some (NdArray (Scalar (0::int))) = Some yv \<and> feature_shape yv = []))"
    by simp
  have h1: "((None :: int feature option) = None \<or> (\<exists>yv. (None :: int feature option) = Some yv \<and> feature_shape yv = []))"
    by simp
  have b: "build_dataset example_framework example_model ?x None ?w 32 128 False 1 ''train'' 1234 None
        = Inr (None, ?s1)"
    by (simp add: build_dataset_def assert_x_def append_label_def example_framework_def
          example_model_def init_sl_model_def)
  have f: "map_sum id (\<lambda>(out, s). (out, train_sample_weight s))
             (base_forward example_framework ?s1 ''train'' False)
           = Inr (Plain (One (Tensor [Scalar 1, Scalar 2])), None)"
    by (simp add: example_simps)
  have fl: "\<not> has_y ?s1 \<and> \<not> has_s_w ?s1"
    using build_dataset_drops_weight_without_label [OF h1, of example_framework example_model ?x ?w 32 128 False 1 "''train''" 1234 None] b
    by blast
  have eq: "build_dataset example_framework example_model ?x (Some (NdArray (Scalar 0))) ?w
               32 128 False 1 ''train'' 1234 None
     = build_dataset example_framework example_model ?x None None 32 128 False 1 ''train'' 1234 None"
    using build_dataset_drops_weight_without_label [OF h0, of example_framework example_model ?x ?w 32 128 False 1 "''train''" 1234 None]
    by blast
  show ?thesis
    unfolding b using f fl eq by (auto split: sum.splits)
qed


end
